theory Spec2Isabelle
  imports Complex_Main "HOL-Library.Sublist"
begin

section \<open>JavaScript values used by the extension\<close>

text \<open>
  A JavaScript number is NaN, one of the two infinities, or a finite value. The finite
  values are carried as rationals: every finite double is a rational, and the code only
  compares numbers, so the order of the rationals is the order of the doubles. The two
  zeros are one value here; the code observes a number only through comparison and
  through \<open>String\<close>, and \<open>String(-0)\<close> is \<open>"0"\<close>.
\<close>

datatype number = NaN | PosInfinity | NegInfinity | Finite rat

fun isNaN :: "number \<Rightarrow> bool" where
  "isNaN NaN = True"
| "isNaN _ = False"

fun isFinite :: "number \<Rightarrow> bool" where
  "isFinite (Finite _) = True"
| "isFinite _ = False"

text \<open>The order of two numbers neither of which is NaN.\<close>

fun number_le :: "number \<Rightarrow> number \<Rightarrow> bool" where
  "number_le NaN _ = False"
| "number_le _ NaN = False"
| "number_le NegInfinity _ = True"
| "number_le _ PosInfinity = True"
| "number_le (Finite a) (Finite b) = (a \<le> b)"
| "number_le _ _ = False"

text \<open>\<open>Math.max\<close> and \<open>Math.min\<close> of two arguments: NaN as soon as one argument is NaN.\<close>

definition Math_max :: "number \<Rightarrow> number \<Rightarrow> number" where
  "Math_max a b = (if isNaN a \<or> isNaN b then NaN else if number_le a b then b else a)"

definition Math_min :: "number \<Rightarrow> number \<Rightarrow> number" where
  "Math_min a b = (if isNaN a \<or> isNaN b then NaN else if number_le a b then a else b)"

text \<open>
  The values a command argument can hold. \<open>truthy\<close> is JavaScript's ToBoolean, so
  \<open>!v\<close> is \<open>\<not> truthy v\<close>; \<open>isString\<close> is \<open>typeof v === 'string'\<close>.
\<close>

datatype jsval =
    JUndefined
  | JNull
  | JBoolean bool
  | JNumber number
  | JString string
  | JObject

fun truthy :: "jsval \<Rightarrow> bool" where
  "truthy JUndefined = False"
| "truthy JNull = False"
| "truthy (JBoolean b) = b"
| "truthy (JNumber n) = (n \<noteq> NaN \<and> n \<noteq> Finite 0)"
| "truthy (JString s) = (s \<noteq> [])"
| "truthy JObject = True"

fun isString :: "jsval \<Rightarrow> bool" where
  "isString (JString _) = True"
| "isString _ = False"

text \<open>\<open>String(b)\<close> of a boolean.\<close>

definition booleanString :: "bool \<Rightarrow> string" where
  "booleanString b = (if b then ''true'' else ''false'')"

subsection \<open>Strings\<close>

text \<open>
  A string is a list of characters with codes 0 to 255, the Latin-1 range of
  JavaScript's code units. \<open>toLowerCase\<close> maps A to Z and the accented capitals
  (192 to 222 but the multiplication sign 215) to the letter 32 codes higher, which is
  setting bit 5. \<open>trim\<close> removes the white space and line terminators of that range
  from both ends.
\<close>

definition toLowerCase_char :: "char \<Rightarrow> char" where
  "toLowerCase_char c =
     (let n = (of_char c :: nat) in
      if (65 \<le> n \<and> n \<le> 90) \<or> (192 \<le> n \<and> n \<le> 222 \<and> n \<noteq> 215)
      then (case c of Char b0 b1 b2 b3 b4 b5 b6 b7 \<Rightarrow> Char b0 b1 b2 b3 b4 True b6 b7)
      else c)"

definition toLowerCase :: "string \<Rightarrow> string" where
  "toLowerCase s = map toLowerCase_char s"

definition isWhiteSpace :: "char \<Rightarrow> bool" where
  "isWhiteSpace c = ((of_char c :: nat) \<in> {9, 10, 11, 12, 13, 32, 160})"

definition trim :: "string \<Rightarrow> string" where
  "trim s = rev (dropWhile isWhiteSpace (rev (dropWhile isWhiteSpace s)))"

text \<open>
  \<open>s.replace(pat, rep)\<close> with a string pattern: the first occurrence of \<open>pat\<close> in
  \<open>s\<close>, scanning from the left, is replaced by \<open>rep\<close>; without an occurrence \<open>s\<close>
  is returned. (The code only passes the empty replacement, so the dollar patterns of
  a replacement string play no part.)
\<close>

fun replace :: "string \<Rightarrow> string \<Rightarrow> string \<Rightarrow> string" where
  "replace [] pat rep = (if pat = [] then rep else [])"
| "replace (c # cs) pat rep =
     (if prefix pat (c # cs) then rep @ drop (length pat) (c # cs)
      else c # replace cs pat rep)"

subsection \<open>What the runtime and the host supply\<close>

text \<open>
  \<open>parseFloat\<close> and \<open>String\<close> of a number are built into the language, and
  \<open>isTrueBoolean\<close> is imported from the host application's \<open>utils.js\<close>. None of the
  three is code of the extension: the model takes them as parameters, and every theorem
  below holds for any choice of them.
\<close>

record runtime =
  parseFloat :: "string \<Rightarrow> number"
  numberString :: "number \<Rightarrow> string"
  isTrueBoolean :: "string \<Rightarrow> bool"

section \<open>The page\<close>

text \<open>
  The element \<open>getTitleParent\<close> starts from: the nearest ancestor of a control that
  is a \<open>.range-block\<close>, else a \<open>label\<close>, else an \<open>h4\<close>, else a \<open>div\<close>. Of that
  element the code reads the text of three descendants, each when
  \<open>querySelector\<close> finds one, and the element's own text.
\<close>

record ancestor =
  rangeBlockTitle :: "string option"
  smallTextNode :: "string option"
  checkboxLabel :: "string option"
  textContent :: string

text \<open>
  An \<open>input\<close> element of the panel, with what the code reads of it (the fields
  \<open>id\<close>, \<open>max\<close>, \<open>min\<close>, \<open>value\<close>, \<open>checked\<close> and \<open>type\<close> carry the prefix
  \<open>input_\<close>, since \<open>id\<close>, \<open>max\<close> and \<open>min\<close> are constants of HOL). The strings
  \<open>input_max\<close> and \<open>input_min\<close> are empty when the element has no such attribute.
  The layout size is the size the element has while the panel is rendered;
  \<open>input_data_for\<close> says that the element has a \<open>data-for\<close> attribute;
  \<open>in_openai_settings\<close> says that \<open>closest('#openai_settings')\<close> finds an element;
  \<open>title_root\<close> is the result of the chain of \<open>closest\<close> calls in
  \<open>getTitleParent\<close>.
\<close>

record control =
  input_id :: string
  input_max :: string
  input_min :: string
  input_value :: string
  input_checked :: bool
  input_type :: string
  input_data_for :: bool
  layoutHeight :: nat
  layoutWidth :: nat
  in_openai_settings :: bool
  title_root :: "ancestor option"

text \<open>
  The navigation panel's style: the three inline declarations the code writes (the
  empty string when a declaration is absent) and the display the style sheets give the
  panel without an inline declaration. An inline declaration wins over the sheets (no
  rule of the sheets is taken to be marked important), so \<open>computedDisplay\<close> is what
  \<open>getComputedStyle(leftPanel).display\<close> reads.
\<close>

record panel =
  style_display :: string
  style_visibility :: string
  style_opacity :: string
  sheet_display :: string

definition computedDisplay :: "panel \<Rightarrow> string" where
  "computedDisplay p = (if style_display p = [] then sheet_display p else style_display p)"

record event =
  event_type :: string
  bubbles :: bool

text \<open>
  The page: the panel \<open>#left-nav-panel\<close> (the host page always has it), its
  \<open>input\<close> elements in document order, and the events dispatched so far, each with
  the index of its target control. A control is referred to by its index in
  \<open>inputs\<close>; that is the live reference a SamplerParameter holds.

  Assigning \<open>control.value\<close> or \<open>control.checked\<close> stores what the code assigns:
  what the browser then does with the string (a range input snaps it to its step, a
  number input drops a string that is not a number) and what the host's listeners do
  with a dispatched event are outside the extension and outside the model.
\<close>

record page =
  leftPanel :: panel
  inputs :: "control list"
  dispatched :: "(nat \<times> event) list"

definition setValue :: "nat \<Rightarrow> string \<Rightarrow> page \<Rightarrow> page" where
  "setValue i v d = d\<lparr>inputs := (inputs d)[i := (inputs d ! i)\<lparr>input_value := v\<rparr>]\<rparr>"

definition setChecked :: "nat \<Rightarrow> bool \<Rightarrow> page \<Rightarrow> page" where
  "setChecked i b d = d\<lparr>inputs := (inputs d)[i := (inputs d ! i)\<lparr>input_checked := b\<rparr>]\<rparr>"

definition dispatchEvent :: "nat \<Rightarrow> event \<Rightarrow> page \<Rightarrow> page" where
  "dispatchEvent i e d = d\<lparr>dispatched := dispatched d @ [(i, e)]\<rparr>"

section \<open>The enumerator\<close>

text \<open>
  The SamplerParameter of the code, its fields with the prefix \<open>param_\<close>; the field
  \<open>control\<close> is the index of the control in the page.
\<close>

record SamplerParameter =
  param_id :: string
  param_name :: string
  param_max :: number
  param_min :: number
  param_value :: number
  param_checked :: bool
  param_type :: string
  param_control :: nat

text \<open>\<open>getTitleParent\<close>, returning the text of the element it chooses.\<close>

definition nonBlank :: "string option \<Rightarrow> bool" where
  "nonBlank t = (case t of None \<Rightarrow> False | Some s \<Rightarrow> trim s \<noteq> [])"

definition getTitleParent :: "control \<Rightarrow> string option" where
  "getTitleParent element =
     (case title_root element of
        None \<Rightarrow> None
      | Some parent \<Rightarrow>
          if nonBlank (rangeBlockTitle parent) then rangeBlockTitle parent
          else if nonBlank (smallTextNode parent) then smallTextNode parent
          else if nonBlank (checkboxLabel parent) then checkboxLabel parent
          else Some (textContent parent))"

definition sanitizeId :: "string \<Rightarrow> string" where
  "sanitizeId ident =
     replace (replace (replace (replace (replace (replace ident
       ''_counter'' []) ''_textgenerationwebui'' []) ''_openai'' []) ''_novel'' [])
       ''openai_'' []) ''oai_'' []"

definition offsetHeight :: "panel \<Rightarrow> control \<Rightarrow> nat" where
  "offsetHeight p e = (if computedDisplay p = ''none'' then 0 else layoutHeight e)"

definition offsetWidth :: "panel \<Rightarrow> control \<Rightarrow> nat" where
  "offsetWidth p e = (if computedDisplay p = ''none'' then 0 else layoutWidth e)"

definition isVisible :: "panel \<Rightarrow> control \<Rightarrow> bool" where
  "isVisible p e = (offsetHeight p e > 0 \<and> offsetWidth p e > 0)"

definition selected :: "control \<Rightarrow> bool" where
  "selected e =
     (input_type e = ''range'' \<or> input_type e = ''checkbox'' \<or>
      (input_type e = ''number'' \<and> \<not> input_data_for e))"

text \<open>
  The loop over the visible controls, each with its index in the page. Every element
  the selector finds is an \<open>input\<close> element, so the loop's first test
  (\<open>instanceof HTMLInputElement\<close>) never skips one. An absent name (\<open>undefined\<close>)
  and an empty one are both falsy.
\<close>

fun collect :: "runtime \<Rightarrow> (nat \<times> control) list \<Rightarrow> SamplerParameter list" where
  "collect rt [] = []"
| "collect rt ((i, c) # rest) =
     (if in_openai_settings c then collect rt rest
      else
        (case map_option trim (getTitleParent c) of
           None \<Rightarrow> collect rt rest
         | Some name \<Rightarrow>
             if sanitizeId (input_id c) = [] \<or> name = [] then collect rt rest
             else
               \<lparr>param_id = sanitizeId (input_id c),
                param_name = name,
                param_max = parseFloat rt (input_max c),
                param_min = parseFloat rt (input_min c),
                param_value = parseFloat rt (input_value c),
                param_checked = input_checked c,
                param_type = input_type c,
                param_control = i\<rparr> # collect rt rest))"

definition forceVisible :: "page \<Rightarrow> page" where
  "forceVisible d =
     (if computedDisplay (leftPanel d) = ''none''
      then d\<lparr>leftPanel := (leftPanel d)
             \<lparr>style_opacity := ''0'', style_visibility := ''hidden'', style_display := ''block''\<rparr>\<rparr>
      else d)"

definition rangeSliders :: "page \<Rightarrow> (nat \<times> control) list" where
  "rangeSliders d =
     filter (\<lambda>(i, e). isVisible (leftPanel d) e)
       (filter (\<lambda>(i, e). selected e) (zip [0 ..< length (inputs d)] (inputs d)))"

definition enumerateSamplerParameters :: "runtime \<Rightarrow> page \<Rightarrow> SamplerParameter list \<times> page" where
  "enumerateSamplerParameters rt d =
     (let leftPanelDisplay = computedDisplay (leftPanel d);
          d1 = forceVisible d;
          samplerParameters = collect rt (rangeSliders d1);
          d2 = d1\<lparr>leftPanel := (leftPanel d1)
                 \<lparr>style_visibility := [], style_opacity := [], style_display := leftPanelDisplay\<rparr>\<rparr>
      in (samplerParameters, d2))"

section \<open>The two commands\<close>

text \<open>One constructor for each \<open>throw\<close> of the code, and the message it carries.\<close>

datatype error =
    NameRequired
  | NameNotString
  | ParameterNotFound string
  | ValueRequired
  | ValueNotString
  | ValueNotFinite

definition message :: "error \<Rightarrow> string" where
  "message e =
     (case e of
        NameRequired \<Rightarrow> ''Parameter name is required.''
      | NameNotString \<Rightarrow> ''Parameter name must be a string.''
      | ParameterNotFound name \<Rightarrow> ''Parameter \"'' @ name @ ''\" not found.''
      | ValueRequired \<Rightarrow> ''Value is required.''
      | ValueNotString \<Rightarrow> ''Value must be a string.''
      | ValueNotFinite \<Rightarrow> ''Value must be convertible to a finite number.'')"

text \<open>
  The three kinds of failure the specification names (its section on error handling),
  and the kind of each error.
\<close>

datatype failure = InvalidArgument | NotFound | InvalidValue

fun kind :: "error \<Rightarrow> failure" where
  "kind NameRequired = InvalidArgument"
| "kind NameNotString = InvalidArgument"
| "kind (ParameterNotFound _) = NotFound"
| "kind ValueRequired = InvalidArgument"
| "kind ValueNotString = InvalidArgument"
| "kind ValueNotFinite = InvalidValue"

definition matches :: "string \<Rightarrow> SamplerParameter \<Rightarrow> bool" where
  "matches name p = (toLowerCase (param_name p) = name \<or> toLowerCase (param_id p) = name)"

definition inputEvent :: event where
  "inputEvent = \<lparr>event_type = ''input'', bubbles = True\<rparr>"

text \<open>The result of \<open>sampler-get\<close> once the parameter is found (line 128).\<close>

definition readParameter :: "runtime \<Rightarrow> SamplerParameter \<Rightarrow> string" where
  "readParameter rt parameter =
     (if param_type parameter = ''checkbox'' then booleanString (param_checked parameter)
      else numberString rt (param_value parameter))"

definition sampler_get :: "runtime \<Rightarrow> jsval \<Rightarrow> page \<Rightarrow> (error + string) \<times> page" where
  "sampler_get rt name d =
     (if \<not> truthy name then (Inl NameRequired, d)
      else
        (case name of
           JString s \<Rightarrow>
             (let name' = toLowerCase (trim s);
                  (params, d') = enumerateSamplerParameters rt d
              in (case find (matches name') params of
                    None \<Rightarrow> (Inl (ParameterNotFound name'), d')
                  | Some parameter \<Rightarrow> (Inr (readParameter rt parameter), d')))
         | _ \<Rightarrow> (Inl NameNotString, d)))"

text \<open>What \<open>sampler-set\<close> does once the parameter is found (lines 158 to 177).\<close>

definition writeParameter ::
  "runtime \<Rightarrow> SamplerParameter \<Rightarrow> jsval \<Rightarrow> page \<Rightarrow> (error + string) \<times> page" where
  "writeParameter rt parameter val d =
     (if \<not> truthy val then (Inl ValueRequired, d)
      else
        (case val of
           JString v \<Rightarrow>
             if param_type parameter = ''checkbox'' then
               (let isTrue = isTrueBoolean rt v;
                    d1 = setChecked (param_control parameter) isTrue d
                in (Inr [], dispatchEvent (param_control parameter) inputEvent d1))
             else
               (let num = parseFloat rt v in
                if isNaN num \<or> \<not> isFinite num then (Inl ValueNotFinite, d)
                else
                  (let clamped = Math_min (Math_max num (param_min parameter)) (param_max parameter);
                       d1 = setValue (param_control parameter) (numberString rt clamped) d
                   in (Inr [], dispatchEvent (param_control parameter) inputEvent d1)))
         | _ \<Rightarrow> (Inl ValueNotString, d)))"

definition sampler_set :: "runtime \<Rightarrow> jsval \<Rightarrow> jsval \<Rightarrow> page \<Rightarrow> (error + string) \<times> page" where
  "sampler_set rt name val d =
     (if \<not> truthy name then (Inl NameRequired, d)
      else
        (case name of
           JString s \<Rightarrow>
             (let name' = toLowerCase (trim s);
                  (params, d') = enumerateSamplerParameters rt d
              in (case find (matches name') params of
                    None \<Rightarrow> (Inl (ParameterNotFound name'), d')
                  | Some parameter \<Rightarrow> writeParameter rt parameter val d'))
         | _ \<Rightarrow> (Inl NameNotString, d)))"

section \<open>Deleting a first occurrence, stated by position\<close>

text \<open>
  These three definitions are not taken from the code: they say in words of positions
  what "deleting the first occurrence of a token" means, for comparison with
  \<open>sanitizeId\<close>. A token occurs at position \<open>i\<close> of \<open>t\<close> when the characters of
  \<open>t\<close> from \<open>i\<close> on begin with the token; \<open>first_occurrence\<close> is the least such
  position, and \<open>delete_first_occurrence\<close> removes the token there, or nothing where
  the token does not occur. \<open>no_token\<close> says that none of the six tokens of
  \<open>sanitizeId\<close> occurs in a string.
\<close>

definition first_occurrence :: "string \<Rightarrow> string \<Rightarrow> nat option" where
  "first_occurrence tok t =
     find (\<lambda>i. take (length tok) (drop i t) = tok) [0 ..< Suc (length t)]"

definition delete_first_occurrence :: "string \<Rightarrow> string \<Rightarrow> string" where
  "delete_first_occurrence tok t =
     (case first_occurrence tok t of
        None \<Rightarrow> t
      | Some i \<Rightarrow> take i t @ drop (i + length tok) t)"

definition no_token :: "string \<Rightarrow> bool" where
  "no_token t =
     (\<not> sublist ''_counter'' t \<and> \<not> sublist ''_textgenerationwebui'' t \<and>
      \<not> sublist ''_openai'' t \<and> \<not> sublist ''_novel'' t \<and>
      \<not> sublist ''openai_'' t \<and> \<not> sublist ''oai_'' t)"

section \<open>An example page\<close>

text \<open>
  The data of the examples below. \<open>example_parseFloat\<close> is \<open>parseFloat\<close> on the
  strings the examples pass to it: the seven strings of its table, and the strings
  \<open>abc\<close>, \<open>on\<close> and the empty string, which it turns into NaN as \<open>parseFloat\<close>
  does. \<open>example_numberString\<close> is \<open>String\<close> on the numbers of its table.
  \<open>example_isTrueBoolean\<close> is a vocabulary of three truthy tokens. The page has a
  hidden panel with a slider, a checkbox and a number field without a \<open>max\<close>
  attribute.
\<close>

definition example_parseFloat :: "string \<Rightarrow> number" where
  "example_parseFloat s =
     (if s = ''0'' then Finite 0
      else if s = ''1'' then Finite 1
      else if s = ''2'' then Finite 2
      else if s = ''5'' then Finite 5
      else if s = ''1.5'' then Finite (3 / 2)
      else if s = ''-1'' then Finite (- 1)
      else if s = ''Infinity'' then PosInfinity
      else NaN)"

definition example_numberString :: "number \<Rightarrow> string" where
  "example_numberString n =
     (case n of
        NaN \<Rightarrow> ''NaN''
      | PosInfinity \<Rightarrow> ''Infinity''
      | NegInfinity \<Rightarrow> ''-Infinity''
      | Finite q \<Rightarrow>
          if q = 0 then ''0''
          else if q = 1 then ''1''
          else if q = 2 then ''2''
          else if q = 5 then ''5''
          else if q = 3 / 2 then ''1.5''
          else if q = - 1 then ''-1''
          else [])"

definition example_isTrueBoolean :: "string \<Rightarrow> bool" where
  "example_isTrueBoolean s = (toLowerCase (trim s) \<in> {''on'', ''true'', ''1''})"

definition example_runtime :: runtime where
  "example_runtime =
     \<lparr>parseFloat = example_parseFloat,
      numberString = example_numberString,
      isTrueBoolean = example_isTrueBoolean\<rparr>"

definition temperature :: control where
  "temperature =
     \<lparr>input_id = ''temp_openai'', input_max = ''2'', input_min = ''0'', input_value = ''1.5'',
      input_checked = False, input_type = ''range'', input_data_for = False,
      layoutHeight = 20, layoutWidth = 120, in_openai_settings = False,
      title_root = Some \<lparr>rangeBlockTitle = Some '' Temperature '', smallTextNode = None,
        checkboxLabel = None, textContent = '' Temperature 1.5''\<rparr>\<rparr>"

definition streaming :: control where
  "streaming =
     \<lparr>input_id = ''streaming_textgenerationwebui'', input_max = [], input_min = [],
      input_value = ''on'', input_checked = False, input_type = ''checkbox'',
      input_data_for = False, layoutHeight = 16, layoutWidth = 16, in_openai_settings = False,
      title_root = Some \<lparr>rangeBlockTitle = None, smallTextNode = None,
        checkboxLabel = Some ''Streaming'', textContent = ''Streaming''\<rparr>\<rparr>"

definition seed :: control where
  "seed =
     \<lparr>input_id = ''seed_textgenerationwebui'', input_max = [], input_min = ''-1'',
      input_value = ''-1'', input_checked = False, input_type = ''number'',
      input_data_for = False, layoutHeight = 24, layoutWidth = 80, in_openai_settings = False,
      title_root = Some \<lparr>rangeBlockTitle = None, smallTextNode = Some ''Seed'',
        checkboxLabel = None, textContent = ''Seed (-1 for random)''\<rparr>\<rparr>"

definition hidden_panel :: panel where
  "hidden_panel =
     \<lparr>style_display = ''none'', style_visibility = [], style_opacity = [],
      sheet_display = ''flex''\<rparr>"

definition example_page :: page where
  "example_page = \<lparr>leftPanel = hidden_panel, inputs = [temperature, streaming, seed], dispatched = []\<rparr>"

text \<open>
  A second page: a visible panel with an inline opacity, holding two sliders whose
  identifiers both sanitize to \<open>temp\<close>, a number field with capitals in its
  identifier, a slider whose identifier is nothing but a known suffix, and a checkbox
  without any label text.
\<close>

definition temperature_novel :: control where
  "temperature_novel =
     \<lparr>input_id = ''temp_novel'', input_max = ''5'', input_min = ''0'', input_value = ''2'',
      input_checked = False, input_type = ''range'', input_data_for = False,
      layoutHeight = 20, layoutWidth = 120, in_openai_settings = False,
      title_root = Some \<lparr>rangeBlockTitle = Some ''Randomness'', smallTextNode = None,
        checkboxLabel = None, textContent = ''Randomness 2''\<rparr>\<rparr>"

definition top_k :: control where
  "top_k =
     \<lparr>input_id = ''Top_K_counter'', input_max = ''5'', input_min = ''0'', input_value = ''0'',
      input_checked = False, input_type = ''number'', input_data_for = False,
      layoutHeight = 20, layoutWidth = 40, in_openai_settings = False,
      title_root = Some \<lparr>rangeBlockTitle = None, smallTextNode = Some ''Top K'',
        checkboxLabel = None, textContent = ''Top K''\<rparr>\<rparr>"

definition bare_counter :: control where
  "bare_counter =
     \<lparr>input_id = ''_counter'', input_max = ''1'', input_min = ''0'', input_value = ''0'',
      input_checked = False, input_type = ''range'', input_data_for = False,
      layoutHeight = 20, layoutWidth = 120, in_openai_settings = False,
      title_root = Some \<lparr>rangeBlockTitle = Some ''Min P'', smallTextNode = None,
        checkboxLabel = None, textContent = ''Min P 0''\<rparr>\<rparr>"

definition untitled :: control where
  "untitled =
     \<lparr>input_id = ''do_sample'', input_max = [], input_min = [], input_value = ''on'',
      input_checked = True, input_type = ''checkbox'', input_data_for = False,
      layoutHeight = 16, layoutWidth = 16, in_openai_settings = False,
      title_root = Some \<lparr>rangeBlockTitle = None, smallTextNode = None,
        checkboxLabel = Some ''  '', textContent = ''  ''\<rparr>\<rparr>"

definition faded_panel :: panel where
  "faded_panel =
     \<lparr>style_display = [], style_visibility = [], style_opacity = ''0.5'',
      sheet_display = ''flex''\<rparr>"

definition second_page :: page where
  "second_page =
     \<lparr>leftPanel = faded_panel,
      inputs = [temperature, temperature_novel, top_k, bare_counter, untitled],
      dispatched = []\<rparr>"

section \<open>Lemmas about the model\<close>

lemmas example_defs =
  example_page_def hidden_panel_def temperature_def streaming_def seed_def
  second_page_def faded_panel_def temperature_novel_def top_k_def bare_counter_def untitled_def
  example_runtime_def example_parseFloat_def example_numberString_def example_isTrueBoolean_def

lemmas model_defs =
  enumerateSamplerParameters_def forceVisible_def rangeSliders_def computedDisplay_def
  isVisible_def offsetHeight_def offsetWidth_def selected_def getTitleParent_def nonBlank_def
  sanitizeId_def trim_def isWhiteSpace_def toLowerCase_def toLowerCase_char_def matches_def

lemma upt3: "[0 ..< 3] = [0, 1, 2]"
  by (simp add: upt_rec)

lemma upt5: "[0 ..< 5] = [0, 1, 2, 3, 4]"
  by (simp add: upt_rec)

lemma example_enumerate:
  "fst (enumerateSamplerParameters example_runtime example_page) =
     [\<lparr>param_id = ''temp'', param_name = ''Temperature'', param_max = Finite 2,
       param_min = Finite 0, param_value = Finite (3 / 2), param_checked = False,
       param_type = ''range'', param_control = 0\<rparr>,
      \<lparr>param_id = ''streaming'', param_name = ''Streaming'', param_max = NaN,
       param_min = NaN, param_value = NaN, param_checked = False,
       param_type = ''checkbox'', param_control = 1\<rparr>,
      \<lparr>param_id = ''seed'', param_name = ''Seed'', param_max = NaN,
       param_min = Finite (- 1), param_value = Finite (- 1), param_checked = False,
       param_type = ''number'', param_control = 2\<rparr>]"
  by (simp add: example_defs model_defs Let_def upt3)

lemma example_enumerate_page:
  "snd (enumerateSamplerParameters example_runtime example_page) = example_page"
  by (simp add: example_defs model_defs Let_def)

lemma inputs_forceVisible: "inputs (forceVisible d) = inputs d"
  by (simp add: forceVisible_def)

lemma dispatched_forceVisible: "dispatched (forceVisible d) = dispatched d"
  by (simp add: forceVisible_def)

lemma inputs_enumerate: "inputs (snd (enumerateSamplerParameters rt d)) = inputs d"
  by (simp add: enumerateSamplerParameters_def Let_def inputs_forceVisible)

lemma dispatched_enumerate: "dispatched (snd (enumerateSamplerParameters rt d)) = dispatched d"
  by (simp add: enumerateSamplerParameters_def Let_def dispatched_forceVisible)

lemma collect_member:
  "p \<in> set (collect rt ics) \<Longrightarrow>
     \<exists>i c name. (i, c) \<in> set ics \<and> \<not> in_openai_settings c
       \<and> map_option trim (getTitleParent c) = Some name
       \<and> sanitizeId (input_id c) \<noteq> [] \<and> name \<noteq> []
       \<and> p = \<lparr>param_id = sanitizeId (input_id c), param_name = name,
                param_max = parseFloat rt (input_max c), param_min = parseFloat rt (input_min c),
                param_value = parseFloat rt (input_value c), param_checked = input_checked c,
                param_type = input_type c, param_control = i\<rparr>"
proof (induction rt ics rule: collect.induct)
  case (1 rt)
  then show ?case by simp
next
  case (2 rt i c rest)
  then show ?case
    by (auto split: if_splits option.splits)
qed

lemma rangeSliders_member:
  "(i, c) \<in> set (rangeSliders d) \<Longrightarrow>
     i < length (inputs d) \<and> inputs d ! i = c \<and> selected c \<and> isVisible (leftPanel d) c"
  by (auto simp: rangeSliders_def set_zip)

lemma enumerate_member:
  assumes "p \<in> set (fst (enumerateSamplerParameters rt d))"
  shows "param_control p < length (inputs d)"
    and "param_id p = sanitizeId (input_id (inputs d ! param_control p))"
    and "map_option trim (getTitleParent (inputs d ! param_control p)) = Some (param_name p)"
    and "param_id p \<noteq> []" and "param_name p \<noteq> []"
    and "param_max p = parseFloat rt (input_max (inputs d ! param_control p))"
    and "param_min p = parseFloat rt (input_min (inputs d ! param_control p))"
    and "param_value p = parseFloat rt (input_value (inputs d ! param_control p))"
    and "param_checked p = input_checked (inputs d ! param_control p)"
    and "param_type p = input_type (inputs d ! param_control p)"
    and "selected (inputs d ! param_control p)"
    and "\<not> in_openai_settings (inputs d ! param_control p)"
proof -
  from assms have "p \<in> set (collect rt (rangeSliders (forceVisible d)))"
    by (simp add: enumerateSamplerParameters_def Let_def)
  then obtain i c name where ic: "(i, c) \<in> set (rangeSliders (forceVisible d))"
    and c: "\<not> in_openai_settings c" "map_option trim (getTitleParent c) = Some name"
      "sanitizeId (input_id c) \<noteq> []" "name \<noteq> []"
    and p: "p = \<lparr>param_id = sanitizeId (input_id c), param_name = name,
                param_max = parseFloat rt (input_max c), param_min = parseFloat rt (input_min c),
                param_value = parseFloat rt (input_value c), param_checked = input_checked c,
                param_type = input_type c, param_control = i\<rparr>"
    using collect_member by blast
  from rangeSliders_member [OF ic]
  have i: "i < length (inputs d)" "inputs d ! i = c" "selected c"
    by (simp_all add: inputs_forceVisible)
  show "param_control p < length (inputs d)"
    and "param_id p = sanitizeId (input_id (inputs d ! param_control p))"
    and "map_option trim (getTitleParent (inputs d ! param_control p)) = Some (param_name p)"
    and "param_id p \<noteq> []" and "param_name p \<noteq> []"
    and "param_max p = parseFloat rt (input_max (inputs d ! param_control p))"
    and "param_min p = parseFloat rt (input_min (inputs d ! param_control p))"
    and "param_value p = parseFloat rt (input_value (inputs d ! param_control p))"
    and "param_checked p = input_checked (inputs d ! param_control p)"
    and "param_type p = input_type (inputs d ! param_control p)"
    and "selected (inputs d ! param_control p)"
    and "\<not> in_openai_settings (inputs d ! param_control p)"
    using i c by (simp_all add: p)
qed

lemma find_matches_member:
  "find (matches key) ps = Some p \<Longrightarrow> p \<in> set ps"
  by (auto simp: find_Some_iff)

lemma found_name_nonempty:
  assumes "find (matches (toLowerCase (trim s))) (fst (enumerateSamplerParameters rt d)) = Some p"
  shows "s \<noteq> []"
proof
  assume "s = []"
  then have key: "toLowerCase (trim s) = []"
    by (simp add: toLowerCase_def trim_def)
  have low: "toLowerCase t = [] \<longleftrightarrow> t = []" for t
    by (simp add: toLowerCase_def)
  from assms have "p \<in> set (fst (enumerateSamplerParameters rt d))"
    by (rule find_matches_member)
  then have "param_id p \<noteq> []" and "param_name p \<noteq> []"
    by (rule enumerate_member(4), rule enumerate_member(5))
  moreover from assms have "matches (toLowerCase (trim s)) p"
    by (auto simp: find_Some_iff)
  ultimately show False
    by (simp add: key matches_def low)
qed

lemma sampler_set_found:
  assumes "find (matches (toLowerCase (trim s))) (fst (enumerateSamplerParameters rt d)) = Some p"
  shows "sampler_set rt (JString s) val d =
           writeParameter rt p val (snd (enumerateSamplerParameters rt d))"
  using assms found_name_nonempty [OF assms]
  by (simp add: sampler_set_def Let_def split_beta)

lemma sampler_set_not_found:
  assumes "s \<noteq> []"
    and "find (matches (toLowerCase (trim s))) (fst (enumerateSamplerParameters rt d)) = None"
  shows "sampler_set rt (JString s) val d =
           (Inl (ParameterNotFound (toLowerCase (trim s))), snd (enumerateSamplerParameters rt d))"
  using assms by (simp add: sampler_set_def Let_def split_beta)

lemma sampler_get_found:
  assumes "find (matches (toLowerCase (trim s))) (fst (enumerateSamplerParameters rt d)) = Some p"
  shows "sampler_get rt (JString s) d =
           (Inr (readParameter rt p), snd (enumerateSamplerParameters rt d))"
  using assms found_name_nonempty [OF assms]
  by (simp add: sampler_get_def Let_def split_beta)

lemma sampler_get_not_found:
  assumes "s \<noteq> []"
    and "find (matches (toLowerCase (trim s))) (fst (enumerateSamplerParameters rt d)) = None"
  shows "sampler_get rt (JString s) d =
           (Inl (ParameterNotFound (toLowerCase (trim s))), snd (enumerateSamplerParameters rt d))"
  using assms by (simp add: sampler_get_def Let_def split_beta)

lemma writeParameter_invalid_value:
  assumes "\<not> truthy val \<or> \<not> isString val"
  shows "\<exists>e. writeParameter rt p val d = (Inl e, d) \<and> kind e = InvalidArgument"
  using assms by (cases val) (auto simp: writeParameter_def)

lemma key_temp: "toLowerCase (trim ''temp'') = ''temp''"
  by (simp add: model_defs)

lemma key_streaming: "toLowerCase (trim ''streaming'') = ''streaming''"
  by (simp add: model_defs)

lemma key_seed: "toLowerCase (trim ''seed'') = ''seed''"
  by (simp add: model_defs)

lemma example_find_temp:
  "find (matches ''temp'') (fst (enumerateSamplerParameters example_runtime example_page)) =
     Some \<lparr>param_id = ''temp'', param_name = ''Temperature'', param_max = Finite 2,
       param_min = Finite 0, param_value = Finite (3 / 2), param_checked = False,
       param_type = ''range'', param_control = 0\<rparr>"
  by (simp add: example_enumerate matches_def toLowerCase_def toLowerCase_char_def)

lemma example_find_streaming:
  "find (matches ''streaming'') (fst (enumerateSamplerParameters example_runtime example_page)) =
     Some \<lparr>param_id = ''streaming'', param_name = ''Streaming'', param_max = NaN,
       param_min = NaN, param_value = NaN, param_checked = False,
       param_type = ''checkbox'', param_control = 1\<rparr>"
  by (simp add: example_enumerate matches_def toLowerCase_def toLowerCase_char_def)

lemma example_find_seed:
  "find (matches ''seed'') (fst (enumerateSamplerParameters example_runtime example_page)) =
     Some \<lparr>param_id = ''seed'', param_name = ''Seed'', param_max = NaN,
       param_min = Finite (- 1), param_value = Finite (- 1), param_checked = False,
       param_type = ''number'', param_control = 2\<rparr>"
  by (simp add: example_enumerate matches_def toLowerCase_def toLowerCase_char_def)

lemma inputs_dispatchEvent: "inputs (dispatchEvent i e d) = inputs d"
  by (simp add: dispatchEvent_def)

lemma inputs_setChecked:
  "inputs (setChecked i b d) = (inputs d)[i := (inputs d ! i)\<lparr>input_checked := b\<rparr>]"
  by (simp add: setChecked_def)

lemma inputs_setValue:
  "inputs (setValue i v d) = (inputs d)[i := (inputs d ! i)\<lparr>input_value := v\<rparr>]"
  by (simp add: setValue_def)

lemma dispatched_setChecked: "dispatched (setChecked i b d) = dispatched d"
  by (simp add: setChecked_def)

lemma dispatched_setValue: "dispatched (setValue i v d) = dispatched d"
  by (simp add: setValue_def)

lemma dispatched_dispatchEvent: "dispatched (dispatchEvent i e d) = dispatched d @ [(i, e)]"
  by (simp add: dispatchEvent_def)

lemma writeParameter_checkbox:
  assumes "param_type p = ''checkbox''" and "v \<noteq> []"
  shows "writeParameter rt p (JString v) d =
           (Inr [], dispatchEvent (param_control p) inputEvent
                      (setChecked (param_control p) (isTrueBoolean rt v) d))"
  using assms by (simp add: writeParameter_def Let_def)

lemma writeParameter_not_finite:
  assumes "param_type p \<noteq> ''checkbox''" and "v \<noteq> []" and "\<not> isFinite (parseFloat rt v)"
  shows "writeParameter rt p (JString v) d = (Inl ValueNotFinite, d)"
  using assms by (simp add: writeParameter_def Let_def)

lemma writeParameter_finite:
  assumes "param_type p \<noteq> ''checkbox''" and "v \<noteq> []" and "parseFloat rt v = Finite x"
  shows "writeParameter rt p (JString v) d =
           (Inr [], dispatchEvent (param_control p) inputEvent
                      (setValue (param_control p)
                         (numberString rt (Math_min (Math_max (Finite x) (param_min p)) (param_max p))) d))"
  using assms by (simp add: writeParameter_def Let_def)

lemma writeParameter_empty_value:
  "writeParameter rt p (JString []) d = (Inl ValueRequired, d)"
  by (simp add: writeParameter_def)

lemma clamp_finite:
  "Math_min (Math_max (Finite x) (Finite lo)) (Finite hi) = Finite (min (max x lo) hi)"
  by (simp add: Math_min_def Math_max_def min_def max_def)

lemma clamp_NaN_max: "Math_min a NaN = NaN"
  by (simp add: Math_min_def)

lemma clamp_NaN_min: "Math_min (Math_max a NaN) b = NaN"
  by (simp add: Math_min_def Math_max_def)

lemma selected_type:
  "selected c \<Longrightarrow> input_type c = ''range'' \<or> input_type c = ''checkbox'' \<or> input_type c = ''number''"
  by (auto simp: selected_def)

lemma second_enumerate:
  "fst (enumerateSamplerParameters example_runtime second_page) =
     [\<lparr>param_id = ''temp'', param_name = ''Temperature'', param_max = Finite 2,
       param_min = Finite 0, param_value = Finite (3 / 2), param_checked = False,
       param_type = ''range'', param_control = 0\<rparr>,
      \<lparr>param_id = ''temp'', param_name = ''Randomness'', param_max = Finite 5,
       param_min = Finite 0, param_value = Finite 2, param_checked = False,
       param_type = ''range'', param_control = 1\<rparr>,
      \<lparr>param_id = ''Top_K'', param_name = ''Top K'', param_max = Finite 5,
       param_min = Finite 0, param_value = Finite 0, param_checked = False,
       param_type = ''number'', param_control = 2\<rparr>]"
  by (simp add: example_defs model_defs Let_def upt5)

lemma second_enumerate_page:
  "snd (enumerateSamplerParameters example_runtime second_page) =
     second_page\<lparr>leftPanel := faded_panel\<lparr>style_opacity := [], style_display := ''flex''\<rparr>\<rparr>"
  by (simp add: example_defs model_defs Let_def)

lemma find_first:
  assumes "ps = before @ p # rest" and "\<forall>q \<in> set before. \<not> P q" and "P p"
  shows "find P ps = Some p"
  using assms by (induction before arbitrary: ps) auto

lemma computedDisplay_restored:
  "computedDisplay (p\<lparr>style_visibility := v, style_opacity := opac, style_display := computedDisplay q\<rparr>)
     = computedDisplay q"
  if "sheet_display p = sheet_display q"
  using that by (simp add: computedDisplay_def)

lemma sheet_display_forceVisible:
  "sheet_display (leftPanel (forceVisible d)) = sheet_display (leftPanel d)"
  by (simp add: forceVisible_def)

lemma subseq_replace: "subseq (replace s pat []) s"
proof (induction s)
  case Nil
  then show ?case by simp
next
  case (Cons c cs)
  have "subseq (drop (length pat) (c # cs)) (c # cs)"
    by (rule suffix_imp_subseq) (rule suffix_drop)
  with Cons show ?case by simp
qed

lemma replace_absent: "\<not> sublist pat s \<Longrightarrow> replace s pat [] = s"
proof (induction s)
  case Nil
  then show ?case by simp
next
  case (Cons c cs)
  then show ?case
    by (simp add: sublist_Cons_right)
qed

lemma replace_foreign_char: "c \<in> set pat \<Longrightarrow> c \<notin> set s \<Longrightarrow> replace s pat [] = s"
  by (rule replace_absent) (auto dest: set_mono_sublist)

lemma replace_skip:
  "pat \<noteq> [] \<Longrightarrow> hd pat \<notin> set a \<Longrightarrow> replace (a @ b) pat [] = a @ replace b pat []"
proof (induction a)
  case Nil
  then show ?case by simp
next
  case (Cons x a)
  from Cons.prems have "\<not> prefix pat (x # a @ b)"
    by (cases pat) auto
  with Cons show ?case by simp
qed

lemma subseq_replace_trans: "subseq t s \<Longrightarrow> subseq (replace t pat []) s"
  using subseq_replace [of t pat] by (rule subseq_order.trans)

lemma subseq_sanitizeId: "subseq (sanitizeId s) s"
  unfolding sanitizeId_def
  by (intro subseq_replace_trans) simp

lemma sanitizeId_absent:
  assumes "\<not> sublist ''_counter'' s" "\<not> sublist ''_textgenerationwebui'' s"
    "\<not> sublist ''_openai'' s" "\<not> sublist ''_novel'' s"
    "\<not> sublist ''openai_'' s" "\<not> sublist ''oai_'' s"
  shows "sanitizeId s = s"
  using assms by (simp add: sanitizeId_def replace_absent)



lemma replace_underscore_free:
  "CHR ''_'' \<notin> set s \<Longrightarrow> replace s ''_counter'' [] = s"
  "CHR ''_'' \<notin> set s \<Longrightarrow> replace s ''_textgenerationwebui'' [] = s"
  "CHR ''_'' \<notin> set s \<Longrightarrow> replace s ''_openai'' [] = s"
  "CHR ''_'' \<notin> set s \<Longrightarrow> replace s ''_novel'' [] = s"
  "CHR ''_'' \<notin> set s \<Longrightarrow> replace s ''openai_'' [] = s"
  "CHR ''_'' \<notin> set s \<Longrightarrow> replace s ''oai_'' [] = s"
  by (rule replace_foreign_char [of "CHR ''_''"]; simp)+

lemma sanitizeId_counter:
  assumes "CHR ''_'' \<notin> set a" "CHR ''_'' \<notin> set b"
  shows "sanitizeId (a @ ''_counter'' @ b) = a @ b"
proof -
  have "replace (a @ ''_counter'' @ b) ''_counter'' [] = a @ b"
    using assms by (simp add: replace_skip)
  moreover have nu: "CHR ''_'' \<notin> set (a @ b)"
    using assms by simp
  ultimately show ?thesis
    by (simp only: sanitizeId_def replace_underscore_free [OF nu])
qed

lemma sanitizeId_textgenerationwebui:
  assumes "CHR ''_'' \<notin> set a" "CHR ''_'' \<notin> set b"
  shows "sanitizeId (a @ ''_textgenerationwebui'' @ b) = a @ b"
proof -
  have 1: "replace (a @ ''_textgenerationwebui'' @ b) ''_counter'' [] = a @ ''_textgenerationwebui'' @ b"
    using assms by (simp add: replace_skip replace_underscore_free)
  have 2: "replace (a @ ''_textgenerationwebui'' @ b) ''_textgenerationwebui'' [] = a @ b"
    using assms by (simp add: replace_skip)
  have nu: "CHR ''_'' \<notin> set (a @ b)"
    using assms by simp
  show ?thesis
    by (simp only: sanitizeId_def 1 2 replace_underscore_free [OF nu])
qed

lemma sanitizeId_openai:
  assumes "CHR ''_'' \<notin> set a" "CHR ''_'' \<notin> set b"
  shows "sanitizeId (a @ ''_openai'' @ b) = a @ b"
proof -
  have 1: "replace (a @ ''_openai'' @ b) ''_counter'' [] = a @ ''_openai'' @ b"
    using assms by (simp add: replace_skip replace_underscore_free)
  have 2: "replace (a @ ''_openai'' @ b) ''_textgenerationwebui'' [] = a @ ''_openai'' @ b"
    using assms by (simp add: replace_skip replace_underscore_free)
  have 3: "replace (a @ ''_openai'' @ b) ''_openai'' [] = a @ b"
    using assms by (simp add: replace_skip)
  have nu: "CHR ''_'' \<notin> set (a @ b)"
    using assms by simp
  show ?thesis
    by (simp only: sanitizeId_def 1 2 3 replace_underscore_free [OF nu])
qed

lemma sanitizeId_novel:
  assumes "CHR ''_'' \<notin> set a" "CHR ''_'' \<notin> set b"
  shows "sanitizeId (a @ ''_novel'' @ b) = a @ b"
proof -
  have 1: "replace (a @ ''_novel'' @ b) ''_counter'' [] = a @ ''_novel'' @ b"
    using assms by (simp add: replace_skip replace_underscore_free)
  have 2: "replace (a @ ''_novel'' @ b) ''_textgenerationwebui'' [] = a @ ''_novel'' @ b"
    using assms by (simp add: replace_skip replace_underscore_free)
  have 3: "replace (a @ ''_novel'' @ b) ''_openai'' [] = a @ ''_novel'' @ b"
    using assms by (simp add: replace_skip replace_underscore_free)
  have 4: "replace (a @ ''_novel'' @ b) ''_novel'' [] = a @ b"
    using assms by (simp add: replace_skip)
  have nu: "CHR ''_'' \<notin> set (a @ b)"
    using assms by simp
  show ?thesis
    by (simp only: sanitizeId_def 1 2 3 4 replace_underscore_free [OF nu])
qed

lemma forceVisible_rendered: "computedDisplay (leftPanel (forceVisible d)) \<noteq> ''none''"
  by (simp add: forceVisible_def computedDisplay_def)

lemma isVisible_forceVisible:
  "isVisible (leftPanel (forceVisible d)) e = (0 < layoutHeight e \<and> 0 < layoutWidth e)"
  by (simp add: isVisible_def offsetHeight_def offsetWidth_def forceVisible_rendered)

lemma rangeSliders_forceVisible:
  "rangeSliders (forceVisible d) =
     filter (\<lambda>(i, e). selected e \<and> 0 < layoutHeight e \<and> 0 < layoutWidth e)
       (zip [0 ..< length (inputs d)] (inputs d))"
  by (simp add: rangeSliders_def isVisible_forceVisible inputs_forceVisible split_def conj_commute)

lemma collect_map_filter:
  "collect rt ics =
     map (\<lambda>(i, c).
            \<lparr>param_id = sanitizeId (input_id c),
             param_name = trim (the (getTitleParent c)),
             param_max = parseFloat rt (input_max c),
             param_min = parseFloat rt (input_min c),
             param_value = parseFloat rt (input_value c),
             param_checked = input_checked c,
             param_type = input_type c,
             param_control = i\<rparr>)
       (filter (\<lambda>(i, c). \<not> in_openai_settings c \<and> sanitizeId (input_id c) \<noteq> [] \<and>
                  (\<exists>t. getTitleParent c = Some t \<and> trim t \<noteq> []))
          ics)"
  by (induction rt ics rule: collect.induct) (auto split: option.splits)

lemma sampler_set_NaN_bound:
  assumes "find (matches (toLowerCase (trim s))) (fst (enumerateSamplerParameters rt d)) = Some p"
    and "param_type p \<noteq> ''checkbox''"
    and "v \<noteq> []"
    and "parseFloat rt v = Finite x"
    and "param_min p = NaN \<or> param_max p = NaN"
  shows "fst (sampler_set rt (JString s) (JString v) d) = Inr []"
    and "input_value (inputs (snd (sampler_set rt (JString s) (JString v) d)) ! param_control p)
           = numberString rt NaN"
proof -
  from assms(1) have "p \<in> set (fst (enumerateSamplerParameters rt d))"
    by (rule find_matches_member)
  then have i: "param_control p < length (inputs d)"
    by (rule enumerate_member(1))
  from assms(5) have nan: "Math_min (Math_max (Finite x) (param_min p)) (param_max p) = NaN"
    by (auto simp: clamp_NaN_min clamp_NaN_max)
  from assms have eq: "sampler_set rt (JString s) (JString v) d =
      (Inr [], dispatchEvent (param_control p) inputEvent
                 (setValue (param_control p) (numberString rt NaN)
                    (snd (enumerateSamplerParameters rt d))))"
    by (simp add: sampler_set_found writeParameter_finite nan)
  show "fst (sampler_set rt (JString s) (JString v) d) = Inr []"
    by (simp add: eq)
  from i show "input_value (inputs (snd (sampler_set rt (JString s) (JString v) d)) ! param_control p)
           = numberString rt NaN"
    by (simp add: eq inputs_dispatchEvent inputs_setValue inputs_enumerate)
qed

lemma replace_at_front: "replace (tok @ b) tok [] = b"
proof (cases "tok @ b")
  case Nil
  then show ?thesis by simp
next
  case (Cons c cs)
  have p: "prefix tok (c # cs)"
    by (simp add: Cons [symmetric])
  have "replace (tok @ b) tok [] = replace (c # cs) tok []"
    by (simp only: Cons)
  also have "\<dots> = drop (length tok) (c # cs)"
    using p by simp
  also have "\<dots> = b"
    by (simp add: Cons [symmetric])
  finally show ?thesis .
qed

lemma replace_first_occurrence:
  assumes "tok \<noteq> []" and "\<not> sublist tok (a @ butlast tok)"
  shows "replace (a @ tok @ b) tok [] = a @ b"
  using assms(2)
proof (induction a)
  case Nil
  show ?case by (simp add: replace_at_front)
next
  case (Cons x a)
  have "\<not> prefix tok (x # a @ tok @ b)"
  proof
    assume p: "prefix tok (x # a @ tok @ b)"
    have q: "prefix ((x # a) @ butlast tok) (x # a @ tok @ b)"
      using assms(1) by (simp add: prefix_def) (metis append_butlast_last_id append_Cons append_Nil append_assoc)
    have "length tok \<le> length ((x # a) @ butlast tok)"
      using assms(1) by (cases tok) simp_all
    with p q have "prefix tok ((x # a) @ butlast tok)"
      by (rule prefix_length_prefix)
    with Cons.prems show False
      by (auto dest: prefix_imp_sublist)
  qed
  moreover from Cons.prems have "\<not> sublist tok (a @ butlast tok)"
    by (simp add: sublist_Cons_right)
  ultimately show ?case
    using Cons.IH by simp
qed

lemma prefix_iff_take: "take (length xs) ys = xs \<longleftrightarrow> prefix xs ys"
proof
  assume "take (length xs) ys = xs"
  then show "prefix xs ys"
    by (metis take_is_prefix)
next
  assume "prefix xs ys"
  then show "take (length xs) ys = xs"
    by (auto simp: prefix_def)
qed

lemma find_map_Suc: "find P (map Suc xs) = map_option Suc (find (\<lambda>i. P (Suc i)) xs)"
  by (induction xs) auto

lemma first_occurrence_Nil: "first_occurrence tok [] = (if tok = [] then Some 0 else None)"
  by (auto simp: first_occurrence_def)

lemma first_occurrence_Cons:
  "first_occurrence tok (c # cs) =
     (if prefix tok (c # cs) then Some 0 else map_option Suc (first_occurrence tok cs))"
proof -
  have "[0 ..< Suc (Suc (length cs))] = 0 # [Suc 0 ..< Suc (Suc (length cs))]"
    by (rule upt_conv_Cons) simp
  also have "[Suc 0 ..< Suc (Suc (length cs))] = map Suc [0 ..< Suc (length cs)]"
    by (rule map_Suc_upt [symmetric])
  finally have "[0 ..< Suc (Suc (length cs))] = 0 # map Suc [0 ..< Suc (length cs)]" .
  then show ?thesis
    by (simp add: first_occurrence_def find_map_Suc prefix_iff_take del: upt_Suc)
qed

lemma replace_is_delete: "replace t tok [] = delete_first_occurrence tok t"
proof (induction t)
  case Nil
  show ?case
    by (simp add: delete_first_occurrence_def first_occurrence_Nil)
next
  case (Cons c cs)
  show ?case
  proof (cases "prefix tok (c # cs)")
    case True
    then show ?thesis
      by (simp add: delete_first_occurrence_def first_occurrence_Cons)
  next
    case False
    with Cons show ?thesis
      by (simp add: delete_first_occurrence_def first_occurrence_Cons split: option.splits)
  qed
qed

lemma sanitizeId_chain:
  "sanitizeId s =
     delete_first_occurrence ''oai_''
       (delete_first_occurrence ''openai_''
          (delete_first_occurrence ''_novel''
             (delete_first_occurrence ''_openai''
                (delete_first_occurrence ''_textgenerationwebui''
                   (delete_first_occurrence ''_counter'' s)))))"
  by (simp only: sanitizeId_def replace_is_delete)

lemma no_token_absent: "no_token s \<Longrightarrow> sanitizeId s = s"
  by (simp add: no_token_def sanitizeId_absent)

lemma no_token_appendD: "no_token (a @ b) \<Longrightarrow> no_token a"
  unfolding no_token_def
  by (meson sublist_order.order.trans sublist_append_rightI)

lemma no_token_appendD2: "no_token (a @ b) \<Longrightarrow> no_token b"
  unfolding no_token_def
  by (meson sublist_order.order.trans sublist_append_leftI)

lemma not_sublist_snoc:
  "\<not> sublist tok xs \<Longrightarrow> \<not> suffix tok (xs @ [x]) \<Longrightarrow> \<not> sublist tok (xs @ [x])"
  by (simp add: sublist_snoc)

lemma not_sublist_Cons:
  "\<not> sublist tok xs \<Longrightarrow> \<not> prefix tok (x # xs) \<Longrightarrow> \<not> sublist tok (x # xs)"
  by (simp add: sublist_Cons_right)

lemma sanitizeId_ends_counter:
  assumes "no_token (core @ butlast ''_counter'')"
  shows "sanitizeId (core @ ''_counter'') = core"
proof -
  from assms have "no_token core"
    by (rule no_token_appendD)
  then have rest: "replace core ''_textgenerationwebui'' [] = core" "replace core ''_openai'' [] = core"
    "replace core ''_novel'' [] = core" "replace core ''openai_'' [] = core"
    "replace core ''oai_'' [] = core"
    by (simp_all add: no_token_def replace_absent)
  from assms have "\<not> sublist ''_counter'' (core @ butlast ''_counter'')"
    by (simp add: no_token_def)
  then have "replace (core @ ''_counter'' @ []) ''_counter'' [] = core @ []"
    by (intro replace_first_occurrence) simp_all
  then have 1: "replace (core @ ''_counter'') ''_counter'' [] = core"
    by simp
  show ?thesis
    by (simp only: sanitizeId_def 1 rest)
qed

lemma sanitizeId_ends_textgenerationwebui:
  assumes "no_token (core @ butlast ''_textgenerationwebui'')"
  shows "sanitizeId (core @ ''_textgenerationwebui'') = core"
proof -
  let ?s = "core @ ''_textgenerationwebui''"
  have split: "?s = (core @ butlast ''_textgenerationwebui'') @ [CHR ''i'']"
    by simp
  from assms have "no_token core"
    by (rule no_token_appendD)
  then have rest: "replace core ''_openai'' [] = core"
    "replace core ''_novel'' [] = core" "replace core ''openai_'' [] = core"
    "replace core ''oai_'' [] = core"
    by (simp_all add: no_token_def replace_absent)
  have "\<not> sublist ''_counter'' ?s"
    unfolding split using assms
    by (intro not_sublist_snoc) (simp_all add: no_token_def suffix_to_prefix)
  then have 0: "replace ?s ''_counter'' [] = ?s"
    by (rule replace_absent)
  from assms have "\<not> sublist ''_textgenerationwebui'' (core @ butlast ''_textgenerationwebui'')"
    by (simp add: no_token_def)
  then have "replace (core @ ''_textgenerationwebui'' @ []) ''_textgenerationwebui'' [] = core @ []"
    by (intro replace_first_occurrence) simp_all
  then have 1: "replace ?s ''_textgenerationwebui'' [] = core"
    by simp
  show ?thesis
    by (simp only: sanitizeId_def 0 1 rest)
qed

lemma sanitizeId_ends_openai:
  assumes "no_token (core @ butlast ''_openai'')"
  shows "sanitizeId (core @ ''_openai'') = core"
proof -
  let ?s = "core @ ''_openai''"
  have split: "?s = (core @ butlast ''_openai'') @ [CHR ''i'']"
    by simp
  from assms have "no_token core"
    by (rule no_token_appendD)
  then have rest: "replace core ''_novel'' [] = core" "replace core ''openai_'' [] = core"
    "replace core ''oai_'' [] = core"
    by (simp_all add: no_token_def replace_absent)
  have "\<not> sublist ''_counter'' ?s"
    unfolding split using assms
    by (intro not_sublist_snoc) (simp_all add: no_token_def suffix_to_prefix)
  then have 0: "replace ?s ''_counter'' [] = ?s"
    by (rule replace_absent)
  have "\<not> sublist ''_textgenerationwebui'' ?s"
    unfolding split using assms
    by (intro not_sublist_snoc) (simp_all add: no_token_def suffix_to_prefix)
  then have 1: "replace ?s ''_textgenerationwebui'' [] = ?s"
    by (rule replace_absent)
  from assms have "\<not> sublist ''_openai'' (core @ butlast ''_openai'')"
    by (simp add: no_token_def)
  then have "replace (core @ ''_openai'' @ []) ''_openai'' [] = core @ []"
    by (intro replace_first_occurrence) simp_all
  then have 2: "replace ?s ''_openai'' [] = core"
    by simp
  show ?thesis
    by (simp only: sanitizeId_def 0 1 2 rest)
qed

lemma sanitizeId_ends_novel:
  assumes "no_token (core @ butlast ''_novel'')"
  shows "sanitizeId (core @ ''_novel'') = core"
proof -
  let ?s = "core @ ''_novel''"
  have split: "?s = (core @ butlast ''_novel'') @ [CHR ''l'']"
    by simp
  from assms have "no_token core"
    by (rule no_token_appendD)
  then have rest: "replace core ''openai_'' [] = core" "replace core ''oai_'' [] = core"
    by (simp_all add: no_token_def replace_absent)
  have "\<not> sublist ''_counter'' ?s"
    unfolding split using assms
    by (intro not_sublist_snoc) (simp_all add: no_token_def suffix_to_prefix)
  then have 0: "replace ?s ''_counter'' [] = ?s"
    by (rule replace_absent)
  have "\<not> sublist ''_textgenerationwebui'' ?s"
    unfolding split using assms
    by (intro not_sublist_snoc) (simp_all add: no_token_def suffix_to_prefix)
  then have 1: "replace ?s ''_textgenerationwebui'' [] = ?s"
    by (rule replace_absent)
  have "\<not> sublist ''_openai'' ?s"
    unfolding split using assms
    by (intro not_sublist_snoc) (simp_all add: no_token_def suffix_to_prefix)
  then have 2: "replace ?s ''_openai'' [] = ?s"
    by (rule replace_absent)
  from assms have "\<not> sublist ''_novel'' (core @ butlast ''_novel'')"
    by (simp add: no_token_def)
  then have "replace (core @ ''_novel'' @ []) ''_novel'' [] = core @ []"
    by (intro replace_first_occurrence) simp_all
  then have 3: "replace ?s ''_novel'' [] = core"
    by simp
  show ?thesis
    by (simp only: sanitizeId_def 0 1 2 3 rest)
qed

lemma sanitizeId_begins_openai:
  assumes "no_token (tl ''openai_'' @ core)"
  shows "sanitizeId (''openai_'' @ core) = core"
proof -
  let ?s = "''openai_'' @ core"
  have split: "?s = CHR ''o'' # (tl ''openai_'' @ core)"
    by simp
  from assms have "no_token core"
    by (rule no_token_appendD2)
  then have rest: "replace core ''oai_'' [] = core"
    by (simp add: no_token_def replace_absent)
  have ns: "\<not> sublist ''_counter'' ?s" "\<not> sublist ''_textgenerationwebui'' ?s"
    "\<not> sublist ''_openai'' ?s" "\<not> sublist ''_novel'' ?s"
    unfolding split using assms
    by (simp_all add: no_token_def sublist_Cons_right [of _ "CHR ''o''"])
  note 0 = ns [THEN replace_absent]
  have 1: "replace ?s ''openai_'' [] = core"
    by (rule replace_at_front)
  show ?thesis
    by (simp only: sanitizeId_def 0 1 rest)
qed

lemma sanitizeId_begins_oai:
  assumes "no_token (tl ''oai_'' @ core)"
  shows "sanitizeId (''oai_'' @ core) = core"
proof -
  let ?s = "''oai_'' @ core"
  have split: "?s = CHR ''o'' # (tl ''oai_'' @ core)"
    by simp
  have ns: "\<not> sublist ''_counter'' ?s" "\<not> sublist ''_textgenerationwebui'' ?s"
    "\<not> sublist ''_openai'' ?s" "\<not> sublist ''_novel'' ?s" "\<not> sublist ''openai_'' ?s"
    unfolding split using assms
    by (simp_all add: no_token_def sublist_Cons_right [of _ "CHR ''o''"])
  note 0 = ns [THEN replace_absent]
  have 1: "replace ?s ''oai_'' [] = core"
    by (rule replace_at_front)
  show ?thesis
    by (simp only: sanitizeId_def 0 1)
qed

lemma delete_absent: "\<not> sublist tok t \<Longrightarrow> delete_first_occurrence tok t = t"
  using replace_absent [of tok t] by (simp add: replace_is_delete)

lemma delete_first:
  "tok \<noteq> [] \<Longrightarrow> \<not> sublist tok (a @ butlast tok) \<Longrightarrow>
     delete_first_occurrence tok (a @ tok @ b) = a @ b"
  using replace_first_occurrence [of tok a b] by (simp add: replace_is_delete)

section \<open>The claims\<close>

text \<open>
  C1. On the example page the number field \<open>seed\<close> has no \<open>max\<close> attribute, so its
  upper bound is \<open>parseFloat('')\<close>, which is NaN. Setting it to \<open>5\<close>, which parses to a
  finite number, writes the string \<open>NaN\<close> to the control, not the parsed number clamped
  into the parameter's bounds; the input event is dispatched all the same. (Lemma
  \<open>sampler_set_NaN_bound\<close> is the general fact: a bound that is NaN makes the command
  write \<open>String(NaN)\<close>.)
\<close>

theorem sampler_set_seed_writes_NaN:
  "parseFloat example_runtime ''5'' = Finite 5
   \<and> sampler_set example_runtime (JString ''seed'') (JString ''5'') example_page =
       (Inr [],
        example_page\<lparr>inputs := [temperature, streaming, seed\<lparr>input_value := ''NaN''\<rparr>],
                     dispatched := [(2, inputEvent)]\<rparr>)"
proof -
  have "parseFloat example_runtime ''5'' = Finite 5"
    by (simp add: example_runtime_def example_parseFloat_def)
  moreover
  have "numberString example_runtime NaN = ''NaN''"
    by (simp add: example_runtime_def example_numberString_def)
  moreover
  have "setValue 2 ''NaN'' example_page =
      example_page\<lparr>inputs := [temperature, streaming, seed\<lparr>input_value := ''NaN''\<rparr>]\<rparr>"
    by (simp add: setValue_def example_page_def)
  ultimately show ?thesis
    using sampler_set_found [of "''seed''" example_runtime example_page _ "JString ''5''"]
      example_find_seed
    by (simp add: key_seed writeParameter_finite clamp_NaN_max example_enumerate_page
        dispatchEvent_def) (simp add: example_page_def)
qed

text \<open>
  X1. The clamping itself, for a parameter whose bounds are finite numbers in order: the
  string written is \<open>String\<close> of the parsed number clamped into the bounds, and one
  bubbling input event is dispatched on the control.
\<close>

theorem sampler_set_clamps:
  assumes "find (matches (toLowerCase (trim s))) (fst (enumerateSamplerParameters rt d)) = Some p"
    and "param_type p \<noteq> ''checkbox''"
    and "v \<noteq> []"
    and "parseFloat rt v = Finite x"
    and "param_min p = Finite lo" and "param_max p = Finite hi" and "lo \<le> hi"
  shows "fst (sampler_set rt (JString s) (JString v) d) = Inr []
         \<and> input_value (inputs (snd (sampler_set rt (JString s) (JString v) d)) ! param_control p)
             = numberString rt (Finite (min (max x lo) hi))
         \<and> lo \<le> min (max x lo) hi \<and> min (max x lo) hi \<le> hi
         \<and> dispatched (snd (sampler_set rt (JString s) (JString v) d))
             = dispatched d @ [(param_control p, \<lparr>event_type = ''input'', bubbles = True\<rparr>)]"
proof -
  from assms(1) have "p \<in> set (fst (enumerateSamplerParameters rt d))"
    by (rule find_matches_member)
  then have i: "param_control p < length (inputs d)"
    by (rule enumerate_member(1))
  from assms have eq: "sampler_set rt (JString s) (JString v) d =
      (Inr [], dispatchEvent (param_control p) inputEvent
                 (setValue (param_control p) (numberString rt (Finite (min (max x lo) hi)))
                    (snd (enumerateSamplerParameters rt d))))"
    by (simp add: sampler_set_found writeParameter_finite clamp_finite)
  from i assms(7) show ?thesis
    by (simp add: eq inputs_dispatchEvent inputs_setValue inputs_enumerate
        dispatched_dispatchEvent dispatched_setValue dispatched_enumerate inputEvent_def)
qed

theorem sampler_set_clamps_witness:
  "input_value (inputs (snd (sampler_set example_runtime (JString ''temp'') (JString ''5'')
       example_page)) ! 0) = ''2''
   \<and> dispatched (snd (sampler_set example_runtime (JString ''temp'') (JString ''5'') example_page))
       = [(0, \<lparr>event_type = ''input'', bubbles = True\<rparr>)]
   \<and> input_value (inputs (snd (sampler_set example_runtime (JString ''Temperature'') (JString ''1.5'')
       example_page)) ! 0) = ''1.5''"
proof -
  have f: "find (matches (toLowerCase (trim ''temp'')))
             (fst (enumerateSamplerParameters example_runtime example_page)) =
     Some \<lparr>param_id = ''temp'', param_name = ''Temperature'', param_max = Finite 2,
       param_min = Finite 0, param_value = Finite (3 / 2), param_checked = False,
       param_type = ''range'', param_control = 0\<rparr>"
    by (simp add: key_temp example_find_temp)
  have g: "find (matches (toLowerCase (trim ''Temperature'')))
             (fst (enumerateSamplerParameters example_runtime example_page)) =
     Some \<lparr>param_id = ''temp'', param_name = ''Temperature'', param_max = Finite 2,
       param_min = Finite 0, param_value = Finite (3 / 2), param_checked = False,
       param_type = ''range'', param_control = 0\<rparr>"
  proof -
    have "toLowerCase (trim ''Temperature'') = ''temperature''"
      by (simp add: model_defs)
    then show ?thesis
      by (simp add: example_enumerate matches_def toLowerCase_def toLowerCase_char_def)
  qed
  have p5: "parseFloat example_runtime ''5'' = Finite 5"
    by (simp add: example_runtime_def example_parseFloat_def)
  have p15: "parseFloat example_runtime ''1.5'' = Finite (3 / 2)"
    by (simp add: example_runtime_def example_parseFloat_def)
  have s2: "numberString example_runtime (Finite 2) = ''2''"
    by (simp add: example_runtime_def example_numberString_def)
  have s15: "numberString example_runtime (Finite (3 / 2)) = ''1.5''"
    by (simp add: example_runtime_def example_numberString_def)
  have a: "input_value (inputs (snd (sampler_set example_runtime (JString ''temp'') (JString ''5'')
       example_page)) ! 0) = ''2''"
    using sampler_set_clamps [OF f _ _ p5, of 0 2, THEN conjunct2, THEN conjunct1]
    by (simp add: s2)
  have b: "dispatched (snd (sampler_set example_runtime (JString ''temp'') (JString ''5'') example_page))
       = [(0, \<lparr>event_type = ''input'', bubbles = True\<rparr>)]"
    using sampler_set_clamps [OF f _ _ p5, of 0 2]
    by (simp add: example_page_def)
  have c: "input_value (inputs (snd (sampler_set example_runtime (JString ''Temperature'')
       (JString ''1.5'') example_page)) ! 0) = ''1.5''"
    using sampler_set_clamps [OF g _ _ p15, of 0 2, THEN conjunct2, THEN conjunct1]
    by (simp add: s15)
  from a b c show ?thesis by simp
qed

text \<open>
  C2, amended. For \<open>sampler-get\<close> and \<open>sampler-set\<close> with a name that is a
  non-empty string, the name is trimmed and lower-cased; when no enumerated parameter
  has that string as its lower-cased name or lower-cased id, both commands fail with
  NotFound; otherwise the command works on the first such parameter in enumeration
  order: \<open>sampler-get\<close> returns what it reads of it and \<open>sampler-set\<close> writes to it.
\<close>

theorem lookup_first_match:
  assumes "s \<noteq> []"
  shows "((\<forall>p \<in> set (fst (enumerateSamplerParameters rt d)).
             toLowerCase (param_name p) \<noteq> toLowerCase (trim s) \<and>
             toLowerCase (param_id p) \<noteq> toLowerCase (trim s)) \<longrightarrow>
          sampler_get rt (JString s) d =
            (Inl (ParameterNotFound (toLowerCase (trim s))), snd (enumerateSamplerParameters rt d)) \<and>
          sampler_set rt (JString s) val d =
            (Inl (ParameterNotFound (toLowerCase (trim s))), snd (enumerateSamplerParameters rt d)) \<and>
          kind (ParameterNotFound (toLowerCase (trim s))) = NotFound)
       \<and> (fst (enumerateSamplerParameters rt d) = before @ p # rest \<and>
           (\<forall>q \<in> set before.
              toLowerCase (param_name q) \<noteq> toLowerCase (trim s) \<and>
              toLowerCase (param_id q) \<noteq> toLowerCase (trim s)) \<and>
           (toLowerCase (param_name p) = toLowerCase (trim s) \<or>
            toLowerCase (param_id p) = toLowerCase (trim s)) \<longrightarrow>
          sampler_get rt (JString s) d =
            (Inr (readParameter rt p), snd (enumerateSamplerParameters rt d)) \<and>
          sampler_set rt (JString s) val d =
            writeParameter rt p val (snd (enumerateSamplerParameters rt d)))"
proof (intro conjI impI)
  assume "\<forall>p \<in> set (fst (enumerateSamplerParameters rt d)).
             toLowerCase (param_name p) \<noteq> toLowerCase (trim s) \<and>
             toLowerCase (param_id p) \<noteq> toLowerCase (trim s)"
  then have none: "find (matches (toLowerCase (trim s))) (fst (enumerateSamplerParameters rt d)) = None"
    by (auto simp: find_None_iff matches_def)
  from assms none show "sampler_get rt (JString s) d =
      (Inl (ParameterNotFound (toLowerCase (trim s))), snd (enumerateSamplerParameters rt d))"
    by (rule sampler_get_not_found)
  from assms none show "sampler_set rt (JString s) val d =
      (Inl (ParameterNotFound (toLowerCase (trim s))), snd (enumerateSamplerParameters rt d))"
    by (rule sampler_set_not_found)
  show "kind (ParameterNotFound (toLowerCase (trim s))) = NotFound"
    by simp
next
  assume a: "fst (enumerateSamplerParameters rt d) = before @ p # rest \<and>
           (\<forall>q \<in> set before.
              toLowerCase (param_name q) \<noteq> toLowerCase (trim s) \<and>
              toLowerCase (param_id q) \<noteq> toLowerCase (trim s)) \<and>
           (toLowerCase (param_name p) = toLowerCase (trim s) \<or>
            toLowerCase (param_id p) = toLowerCase (trim s))"
  have some: "find (matches (toLowerCase (trim s))) (fst (enumerateSamplerParameters rt d)) = Some p"
  proof (rule find_first)
    from a show "fst (enumerateSamplerParameters rt d) = before @ p # rest"
      by simp
    from a show "\<forall>q \<in> set before. \<not> matches (toLowerCase (trim s)) q"
      by (simp add: matches_def)
    from a show "matches (toLowerCase (trim s)) p"
      by (simp add: matches_def)
  qed
  from some show "sampler_get rt (JString s) d =
      (Inr (readParameter rt p), snd (enumerateSamplerParameters rt d))"
    by (rule sampler_get_found)
  from some show "sampler_set rt (JString s) val d =
      writeParameter rt p val (snd (enumerateSamplerParameters rt d))"
    by (rule sampler_set_found)
qed

theorem lookup_first_match_witness:
  "fst (sampler_get example_runtime (JString '' TEMP '') second_page) = Inr ''1.5''
   \<and> fst (sampler_get example_runtime (JString ''randomness'') second_page) = Inr ''2''
   \<and> fst (sampler_get example_runtime (JString ''top_k'') second_page) = Inr ''0''
   \<and> fst (sampler_get example_runtime (JString ''tem'') second_page) = Inl (ParameterNotFound ''tem'')
   \<and> fst (sampler_set example_runtime (JString ''tem'') (JString ''2'') second_page)
       = Inl (ParameterNotFound ''tem'')"
proof -
  let ?t = "\<lparr>param_id = ''temp'', param_name = ''Temperature'', param_max = Finite 2,
       param_min = Finite 0, param_value = Finite (3 / 2), param_checked = False,
       param_type = ''range'', param_control = 0\<rparr>"
  let ?r = "\<lparr>param_id = ''temp'', param_name = ''Randomness'', param_max = Finite 5,
       param_min = Finite 0, param_value = Finite 2, param_checked = False,
       param_type = ''range'', param_control = 1\<rparr>"
  let ?k = "\<lparr>param_id = ''Top_K'', param_name = ''Top K'', param_max = Finite 5,
       param_min = Finite 0, param_value = Finite 0, param_checked = False,
       param_type = ''number'', param_control = 2\<rparr>"
  have k1: "toLowerCase (trim '' TEMP '') = ''temp''"
    and k2: "toLowerCase (trim ''randomness'') = ''randomness''"
    and k3: "toLowerCase (trim ''top_k'') = ''top_k''"
    and k4: "toLowerCase (trim ''tem'') = ''tem''"
    by (simp_all add: model_defs)
  have low: "toLowerCase ''Temperature'' = ''temperature''" "toLowerCase ''Randomness'' = ''randomness''"
    "toLowerCase ''Top K'' = ''top k''" "toLowerCase ''temp'' = ''temp''"
    "toLowerCase ''Top_K'' = ''top_k''"
    by (simp_all add: toLowerCase_def toLowerCase_char_def)
  have rd: "readParameter example_runtime (?t\<lparr>param_control := i\<rparr>) = ''1.5''"
    "readParameter example_runtime (?r\<lparr>param_control := i\<rparr>) = ''2''"
    "readParameter example_runtime (?k\<lparr>param_control := i\<rparr>) = ''0''" for i
    by (simp_all add: readParameter_def example_runtime_def example_numberString_def)
  have a: "fst (sampler_get example_runtime (JString '' TEMP '') second_page) = Inr ''1.5''"
    using lookup_first_match [where s = "'' TEMP ''" and rt = example_runtime and d = second_page
          and before = "[]" and p = ?t and rest = "[?r, ?k]" and val = JNull,
        THEN conjunct2]
    using rd [of 0] by (simp add: k1 second_enumerate low)
  have b: "fst (sampler_get example_runtime (JString ''randomness'') second_page) = Inr ''2''"
    using lookup_first_match [where s = "''randomness''" and rt = example_runtime and d = second_page
          and before = "[?t]" and p = ?r and rest = "[?k]" and val = JNull,
        THEN conjunct2]
    using rd [of 1] by (simp add: k2 second_enumerate low)
  have c: "fst (sampler_get example_runtime (JString ''top_k'') second_page) = Inr ''0''"
    using lookup_first_match [where s = "''top_k''" and rt = example_runtime and d = second_page
          and before = "[?t, ?r]" and p = ?k and rest = "[]" and val = JNull,
        THEN conjunct2]
    using rd [of 2] by (simp add: k3 second_enumerate low)
  have d: "fst (sampler_get example_runtime (JString ''tem'') second_page) = Inl (ParameterNotFound ''tem'')
     \<and> fst (sampler_set example_runtime (JString ''tem'') (JString ''2'') second_page)
       = Inl (ParameterNotFound ''tem'')"
    using lookup_first_match [where s = "''tem''" and rt = example_runtime and d = second_page
          and val = "JString ''2''",
        THEN conjunct1]
    by (simp add: k4 second_enumerate low)
  from a b c d show ?thesis by simp
qed

text \<open>
  C2 as stated fails at the empty name: trimmed and lower-cased it is the empty
  string, which no parameter matches, and both commands fail with InvalidArgument (the
  name is required), not with NotFound.
\<close>

theorem sampler_get_empty_name:
  "toLowerCase (trim []) = []
   \<and> find (matches []) (fst (enumerateSamplerParameters example_runtime example_page)) = None
   \<and> sampler_get example_runtime (JString []) example_page = (Inl NameRequired, example_page)
   \<and> sampler_set example_runtime (JString []) (JString ''1.5'') example_page
       = (Inl NameRequired, example_page)
   \<and> kind NameRequired \<noteq> NotFound"
  by (simp add: example_enumerate matches_def sampler_get_def sampler_set_def)
    (simp add: model_defs)

text \<open>
  C3. When \<open>sampler-get\<close> finds a parameter, the result is \<open>String\<close> of the control's
  checked state, so \<open>true\<close> or \<open>false\<close>, for a checkbox, and \<open>String\<close> of the number
  parsed from the control's value for a range or number control (a parameter that is
  not a checkbox is one of the two); no control of the page is changed and no event is
  dispatched.
\<close>

theorem sampler_get_result:
  assumes "find (matches (toLowerCase (trim s))) (fst (enumerateSamplerParameters rt d)) = Some p"
  shows "fst (sampler_get rt (JString s) d) =
           Inr (if param_type p = ''checkbox''
                then (if input_checked (inputs d ! param_control p) then ''true'' else ''false'')
                else numberString rt (parseFloat rt (input_value (inputs d ! param_control p))))
         \<and> (param_type p = ''checkbox'' \<or> param_type p = ''range'' \<or> param_type p = ''number'')
         \<and> inputs (snd (sampler_get rt (JString s) d)) = inputs d
         \<and> dispatched (snd (sampler_get rt (JString s) d)) = dispatched d"
proof -
  from assms have m: "p \<in> set (fst (enumerateSamplerParameters rt d))"
    by (rule find_matches_member)
  from assms have eq: "sampler_get rt (JString s) d =
      (Inr (readParameter rt p), snd (enumerateSamplerParameters rt d))"
    by (rule sampler_get_found)
  have ty: "param_type p = ''checkbox'' \<or> param_type p = ''range'' \<or> param_type p = ''number''"
    using selected_type [OF enumerate_member(11) [OF m]] enumerate_member(10) [OF m]
    by auto
  show ?thesis
    using ty
    by (simp add: eq readParameter_def booleanString_def inputs_enumerate dispatched_enumerate
        enumerate_member(8) [OF m] enumerate_member(9) [OF m])
qed

theorem sampler_get_result_witness:
  "sampler_get example_runtime (JString ''temp'') example_page = (Inr ''1.5'', example_page)
   \<and> sampler_get example_runtime (JString ''streaming'') example_page = (Inr ''false'', example_page)"
proof -
  have f: "find (matches (toLowerCase (trim ''temp'')))
             (fst (enumerateSamplerParameters example_runtime example_page)) =
     Some \<lparr>param_id = ''temp'', param_name = ''Temperature'', param_max = Finite 2,
       param_min = Finite 0, param_value = Finite (3 / 2), param_checked = False,
       param_type = ''range'', param_control = 0\<rparr>"
    by (simp add: key_temp example_find_temp)
  have g: "find (matches (toLowerCase (trim ''streaming'')))
             (fst (enumerateSamplerParameters example_runtime example_page)) =
     Some \<lparr>param_id = ''streaming'', param_name = ''Streaming'', param_max = NaN,
       param_min = NaN, param_value = NaN, param_checked = False,
       param_type = ''checkbox'', param_control = 1\<rparr>"
    by (simp add: key_streaming example_find_streaming)
  have v: "numberString example_runtime (parseFloat example_runtime ''1.5'') = ''1.5''"
    by (simp add: example_runtime_def example_numberString_def example_parseFloat_def)
  have snd_get: "snd (sampler_get example_runtime (JString n) example_page) = example_page"
    if "n \<noteq> []" for n
    using that by (simp add: sampler_get_def Let_def split_beta example_enumerate_page
        split: option.splits)
  have a: "fst (sampler_get example_runtime (JString ''temp'') example_page) = Inr ''1.5''"
    using sampler_get_result [OF f, THEN conjunct1]
    by (simp add: v) (simp add: example_page_def temperature_def v)
  have b: "fst (sampler_get example_runtime (JString ''streaming'') example_page) = Inr ''false''"
    using sampler_get_result [OF g, THEN conjunct1]
    by simp (simp add: example_page_def streaming_def)
  from a b snd_get [of "''temp''"] snd_get [of "''streaming''"] show ?thesis
    by (simp add: prod_eq_iff)
qed

text \<open>
  C4, amended. When \<open>sampler-set\<close> finds a parameter that is not a checkbox and the
  value is a non-empty string that \<open>parseFloat\<close> turns into NaN or an infinity, the
  command fails with InvalidValue, no control of the page is changed and no event is
  dispatched.
\<close>

theorem sampler_set_not_finite:
  assumes "find (matches (toLowerCase (trim s))) (fst (enumerateSamplerParameters rt d)) = Some p"
    and "param_type p \<noteq> ''checkbox''"
    and "v \<noteq> []"
    and "parseFloat rt v = NaN \<or> parseFloat rt v = PosInfinity \<or> parseFloat rt v = NegInfinity"
  shows "fst (sampler_set rt (JString s) (JString v) d) = Inl ValueNotFinite
         \<and> kind ValueNotFinite = InvalidValue
         \<and> inputs (snd (sampler_set rt (JString s) (JString v) d)) = inputs d
         \<and> dispatched (snd (sampler_set rt (JString s) (JString v) d)) = dispatched d"
proof -
  from assms(4) have "\<not> isFinite (parseFloat rt v)"
    by auto
  with assms have "sampler_set rt (JString s) (JString v) d =
      (Inl ValueNotFinite, snd (enumerateSamplerParameters rt d))"
    by (simp add: sampler_set_found writeParameter_not_finite)
  then show ?thesis
    by (simp add: inputs_enumerate dispatched_enumerate)
qed

theorem sampler_set_not_finite_witness:
  "fst (sampler_set example_runtime (JString ''temp'') (JString ''abc'') example_page) = Inl ValueNotFinite
   \<and> inputs (snd (sampler_set example_runtime (JString ''temp'') (JString ''abc'') example_page))
       = [temperature, streaming, seed]
   \<and> dispatched (snd (sampler_set example_runtime (JString ''temp'') (JString ''abc'') example_page)) = []
   \<and> fst (sampler_set example_runtime (JString ''temp'') (JString ''Infinity'') example_page)
       = Inl ValueNotFinite"
proof -
  have f: "find (matches (toLowerCase (trim ''temp'')))
             (fst (enumerateSamplerParameters example_runtime example_page)) =
     Some \<lparr>param_id = ''temp'', param_name = ''Temperature'', param_max = Finite 2,
       param_min = Finite 0, param_value = Finite (3 / 2), param_checked = False,
       param_type = ''range'', param_control = 0\<rparr>"
    by (simp add: key_temp example_find_temp)
  have nan: "parseFloat example_runtime ''abc'' = NaN \<or> parseFloat example_runtime ''abc'' = PosInfinity
      \<or> parseFloat example_runtime ''abc'' = NegInfinity"
    by (simp add: example_runtime_def example_parseFloat_def)
  have inf: "parseFloat example_runtime ''Infinity'' = NaN
      \<or> parseFloat example_runtime ''Infinity'' = PosInfinity
      \<or> parseFloat example_runtime ''Infinity'' = NegInfinity"
    by (simp add: example_runtime_def example_parseFloat_def)
  from sampler_set_not_finite [OF f _ _ nan] sampler_set_not_finite [OF f _ _ inf]
  show ?thesis
    by (simp add: example_page_def)
qed

text \<open>
  C4 as stated fails at the empty string: it parses to NaN, and the command
  fails with InvalidArgument (the value is required), not with InvalidValue.
\<close>

theorem sampler_set_empty_value_on_range:
  "parseFloat example_runtime [] = NaN
   \<and> sampler_set example_runtime (JString ''temp'') (JString []) example_page
       = (Inl ValueRequired, example_page)
   \<and> kind ValueRequired = InvalidArgument"
proof -
  have "parseFloat example_runtime [] = NaN"
    by (simp add: example_runtime_def example_parseFloat_def)
  moreover
  have "sampler_set example_runtime (JString ''temp'') (JString []) example_page
       = (Inl ValueRequired, example_page)"
    using sampler_set_found [of "''temp''" example_runtime example_page _ "JString []"]
      example_find_temp
    by (simp add: key_temp writeParameter_empty_value example_enumerate_page)
  ultimately show ?thesis by simp
qed

text \<open>
  C5, amended. When \<open>sampler-set\<close> finds a checkbox parameter and the value is a
  non-empty string, the command succeeds whatever the string holds: it sets the
  control's checked state to what \<open>isTrueBoolean\<close> says of the string (true for a
  recognised truthy token, false for every other string), leaves the control's value
  alone, and dispatches the input event.
\<close>

theorem sampler_set_checkbox:
  assumes "find (matches (toLowerCase (trim s))) (fst (enumerateSamplerParameters rt d)) = Some p"
    and "param_type p = ''checkbox''"
    and "v \<noteq> []"
  shows "sampler_set rt (JString s) (JString v) d =
           (Inr [], dispatchEvent (param_control p) inputEvent
                      (setChecked (param_control p) (isTrueBoolean rt v)
                         (snd (enumerateSamplerParameters rt d))))
         \<and> input_checked (inputs (snd (sampler_set rt (JString s) (JString v) d)) ! param_control p)
             = isTrueBoolean rt v
         \<and> input_value (inputs (snd (sampler_set rt (JString s) (JString v) d)) ! param_control p)
             = input_value (inputs d ! param_control p)"
proof -
  from assms(1) have "p \<in> set (fst (enumerateSamplerParameters rt d))"
    by (rule find_matches_member)
  then have i: "param_control p < length (inputs d)"
    by (rule enumerate_member(1))
  from assms have eq: "sampler_set rt (JString s) (JString v) d =
           (Inr [], dispatchEvent (param_control p) inputEvent
                      (setChecked (param_control p) (isTrueBoolean rt v)
                         (snd (enumerateSamplerParameters rt d))))"
    by (simp add: sampler_set_found writeParameter_checkbox)
  from i show ?thesis
    by (simp add: eq inputs_dispatchEvent inputs_setChecked inputs_enumerate)
qed

theorem sampler_set_checkbox_witness:
  "input_checked (inputs (snd (sampler_set example_runtime (JString ''streaming'') (JString ''true'')
       example_page)) ! 1) = True
   \<and> input_checked (inputs (snd (sampler_set example_runtime (JString ''streaming'') (JString ''no'')
       example_page)) ! 1) = False
   \<and> fst (sampler_set example_runtime (JString ''streaming'') (JString ''no'') example_page) = Inr []"
proof -
  have f: "find (matches (toLowerCase (trim ''streaming'')))
             (fst (enumerateSamplerParameters example_runtime example_page)) =
     Some \<lparr>param_id = ''streaming'', param_name = ''Streaming'', param_max = NaN,
       param_min = NaN, param_value = NaN, param_checked = False,
       param_type = ''checkbox'', param_control = 1\<rparr>"
    by (simp add: key_streaming example_find_streaming)
  have t: "isTrueBoolean example_runtime ''true'' = True"
    by (simp add: example_runtime_def example_isTrueBoolean_def model_defs)
  have n: "isTrueBoolean example_runtime ''no'' = False"
    by (simp add: example_runtime_def example_isTrueBoolean_def model_defs)
  have "input_checked (inputs (snd (sampler_set example_runtime (JString ''streaming'')
       (JString ''true'') example_page)) ! 1) = True"
    using sampler_set_checkbox [OF f, of "''true''", THEN conjunct2, THEN conjunct1]
    by (simp add: t)
  moreover
  have "input_checked (inputs (snd (sampler_set example_runtime (JString ''streaming'')
       (JString ''no'') example_page)) ! 1) = False"
    using sampler_set_checkbox [OF f, of "''no''", THEN conjunct2, THEN conjunct1]
    by (simp add: n)
  moreover
  have "fst (sampler_set example_runtime (JString ''streaming'') (JString ''no'') example_page)
      = Inr []"
    using sampler_set_checkbox [OF f, of "''no''", THEN conjunct1] by simp
  ultimately show ?thesis by simp
qed

text \<open>
  C5 as stated fails at the empty string: the command fails (the value is
  required) and the checkbox keeps its state.
\<close>

theorem sampler_set_empty_value_on_checkbox:
  "sampler_set example_runtime (JString ''streaming'') (JString []) example_page
       = (Inl ValueRequired, example_page)
   \<and> input_checked (inputs example_page ! 1) = False"
  using sampler_set_found [of "''streaming''" example_runtime example_page _ "JString []"]
    example_find_streaming
  by (simp add: key_streaming writeParameter_empty_value example_enumerate_page)
    (simp add: example_page_def streaming_def)

text \<open>
  C6, amended. After the enumerator returns, the panel's computed display is what it
  was before the call, its inline display holds that computed value, and its inline
  visibility and opacity are empty. So the panel's style is exactly what it was before
  the call when, before the call, the display was set inline and no visibility or
  opacity was set inline; this holds for a hidden panel and for a visible one.
\<close>

theorem enumerate_panel_style:
  "computedDisplay (leftPanel (snd (enumerateSamplerParameters rt d))) = computedDisplay (leftPanel d)
   \<and> style_display (leftPanel (snd (enumerateSamplerParameters rt d))) = computedDisplay (leftPanel d)
   \<and> style_visibility (leftPanel (snd (enumerateSamplerParameters rt d))) = []
   \<and> style_opacity (leftPanel (snd (enumerateSamplerParameters rt d))) = []
   \<and> sheet_display (leftPanel (snd (enumerateSamplerParameters rt d))) = sheet_display (leftPanel d)
   \<and> (style_display (leftPanel d) \<noteq> [] \<and> style_visibility (leftPanel d) = [] \<and>
        style_opacity (leftPanel d) = [] \<longrightarrow>
      leftPanel (snd (enumerateSamplerParameters rt d)) = leftPanel d)"
proof -
  have "leftPanel (snd (enumerateSamplerParameters rt d)) = leftPanel d"
    if "style_display (leftPanel d) \<noteq> []" and "style_visibility (leftPanel d) = []"
      and "style_opacity (leftPanel d) = []"
    using that
    by (simp add: enumerateSamplerParameters_def Let_def forceVisible_def computedDisplay_def)
  then show ?thesis
    by (simp add: enumerateSamplerParameters_def Let_def computedDisplay_restored
        sheet_display_forceVisible)
qed

theorem enumerate_panel_style_witness:
  "style_display (leftPanel example_page) = ''none''
   \<and> style_visibility (leftPanel example_page) = []
   \<and> style_opacity (leftPanel example_page) = []
   \<and> leftPanel (snd (enumerateSamplerParameters example_runtime example_page))
       = leftPanel example_page
   \<and> map param_id (fst (enumerateSamplerParameters example_runtime example_page))
       = [''temp'', ''streaming'', ''seed'']"
proof -
  have h: "style_display (leftPanel example_page) = ''none''"
    "style_visibility (leftPanel example_page) = []"
    "style_opacity (leftPanel example_page) = []"
    by (simp_all add: example_page_def hidden_panel_def)
  from enumerate_panel_style [of example_runtime example_page] h
  have "leftPanel (snd (enumerateSamplerParameters example_runtime example_page))
       = leftPanel example_page"
    by simp
  with h show ?thesis
    by (simp add: example_enumerate)
qed

text \<open>
  C6 as stated fails on a visible panel with an inline opacity and no inline
  display: the enumerator clears the opacity and sets the display inline.
\<close>

theorem enumerate_clears_inline_opacity:
  "computedDisplay (leftPanel second_page) = ''flex''
   \<and> style_opacity (leftPanel second_page) = ''0.5''
   \<and> style_opacity (leftPanel (snd (enumerateSamplerParameters example_runtime second_page))) = []
   \<and> style_display (leftPanel second_page) = []
   \<and> style_display (leftPanel (snd (enumerateSamplerParameters example_runtime second_page))) = ''flex''"
  by (simp add: second_enumerate_page) (simp add: second_page_def faded_panel_def computedDisplay_def)

text \<open>
  C7, amended. The id of an enumerated parameter is \<open>sanitizeId\<close> of its control's raw
  identifier, and \<open>sanitizeId\<close> deletes the first occurrence of \<open>_counter\<close>, then of
  \<open>_textgenerationwebui\<close>, \<open>_openai\<close>, \<open>_novel\<close>, \<open>openai_\<close> and \<open>oai_\<close>, each
  wherever it stands in the string it is given, and does nothing else. Deleting the
  first occurrence leaves a string without the token as it is, and takes the token out
  at the first place it stands. So the characters that remain keep their order; an
  identifier without any of the six tokens is unchanged; an identifier that ends in one
  of the four suffix tokens and holds no token before its last character loses that
  suffix and nothing else; an identifier that begins with \<open>openai_\<close> or \<open>oai_\<close> and
  holds no token after its first character loses that prefix and nothing else; and a
  suffix token between two underscore-free strings is deleted although it stands in
  the middle.
\<close>

theorem sanitizeId_deletes_tokens:
  "(p \<in> set (fst (enumerateSamplerParameters rt d)) \<longrightarrow>
      param_id p = sanitizeId (input_id (inputs d ! param_control p)))
   \<and> sanitizeId s =
       delete_first_occurrence ''oai_''
         (delete_first_occurrence ''openai_''
            (delete_first_occurrence ''_novel''
               (delete_first_occurrence ''_openai''
                  (delete_first_occurrence ''_textgenerationwebui''
                     (delete_first_occurrence ''_counter'' s)))))
   \<and> (\<not> sublist tok t \<longrightarrow> delete_first_occurrence tok t = t)
   \<and> (tok \<noteq> [] \<and> \<not> sublist tok (a @ butlast tok) \<longrightarrow>
      delete_first_occurrence tok (a @ tok @ b) = a @ b)
   \<and> subseq (sanitizeId s) s
   \<and> (no_token s \<longrightarrow> sanitizeId s = s)
   \<and> (no_token (core @ butlast suf) \<and>
        suf \<in> {''_counter'', ''_textgenerationwebui'', ''_openai'', ''_novel''} \<longrightarrow>
      sanitizeId (core @ suf) = core)
   \<and> (no_token (tl pre @ core) \<and> pre \<in> {''openai_'', ''oai_''} \<longrightarrow>
      sanitizeId (pre @ core) = core)
   \<and> (CHR ''_'' \<notin> set x \<and> CHR ''_'' \<notin> set y \<longrightarrow>
      sanitizeId (x @ ''_counter'' @ y) = x @ y \<and>
      sanitizeId (x @ ''_textgenerationwebui'' @ y) = x @ y \<and>
      sanitizeId (x @ ''_openai'' @ y) = x @ y \<and>
      sanitizeId (x @ ''_novel'' @ y) = x @ y)"
proof (intro conjI impI)
  assume "p \<in> set (fst (enumerateSamplerParameters rt d))"
  then show "param_id p = sanitizeId (input_id (inputs d ! param_control p))"
    by (rule enumerate_member(2))
next
  show "sanitizeId s =
       delete_first_occurrence ''oai_''
         (delete_first_occurrence ''openai_''
            (delete_first_occurrence ''_novel''
               (delete_first_occurrence ''_openai''
                  (delete_first_occurrence ''_textgenerationwebui''
                     (delete_first_occurrence ''_counter'' s)))))"
    by (rule sanitizeId_chain)
next
  assume "\<not> sublist tok t"
  then show "delete_first_occurrence tok t = t"
    by (rule delete_absent)
next
  assume "tok \<noteq> [] \<and> \<not> sublist tok (a @ butlast tok)"
  then show "delete_first_occurrence tok (a @ tok @ b) = a @ b"
    by (intro delete_first) simp_all
next
  show "subseq (sanitizeId s) s"
    by (rule subseq_sanitizeId)
next
  assume "no_token s"
  then show "sanitizeId s = s"
    by (rule no_token_absent)
next
  assume "no_token (core @ butlast suf) \<and>
        suf \<in> {''_counter'', ''_textgenerationwebui'', ''_openai'', ''_novel''}"
  then consider "suf = ''_counter''" "no_token (core @ butlast ''_counter'')"
    | "suf = ''_textgenerationwebui''" "no_token (core @ butlast ''_textgenerationwebui'')"
    | "suf = ''_openai''" "no_token (core @ butlast ''_openai'')"
    | "suf = ''_novel''" "no_token (core @ butlast ''_novel'')"
    by blast
  then show "sanitizeId (core @ suf) = core"
  proof cases
    case 1
    then show ?thesis by (simp only: sanitizeId_ends_counter)
  next
    case 2
    then show ?thesis by (simp only: sanitizeId_ends_textgenerationwebui)
  next
    case 3
    then show ?thesis by (simp only: sanitizeId_ends_openai)
  next
    case 4
    then show ?thesis by (simp only: sanitizeId_ends_novel)
  qed
next
  assume "no_token (tl pre @ core) \<and> pre \<in> {''openai_'', ''oai_''}"
  then consider "pre = ''openai_''" "no_token (tl ''openai_'' @ core)"
    | "pre = ''oai_''" "no_token (tl ''oai_'' @ core)"
    by blast
  then show "sanitizeId (pre @ core) = core"
  proof cases
    case 1
    then show ?thesis by (simp only: sanitizeId_begins_openai)
  next
    case 2
    then show ?thesis by (simp only: sanitizeId_begins_oai)
  qed
next
  assume xy: "CHR ''_'' \<notin> set x \<and> CHR ''_'' \<notin> set y"
  then show "sanitizeId (x @ ''_counter'' @ y) = x @ y"
    by (intro sanitizeId_counter) simp_all
  from xy show "sanitizeId (x @ ''_textgenerationwebui'' @ y) = x @ y"
    by (intro sanitizeId_textgenerationwebui) simp_all
  from xy show "sanitizeId (x @ ''_openai'' @ y) = x @ y"
    by (intro sanitizeId_openai) simp_all
  from xy show "sanitizeId (x @ ''_novel'' @ y) = x @ y"
    by (intro sanitizeId_novel) simp_all
qed

theorem sanitizeId_deletes_tokens_witness:
  "map param_id (fst (enumerateSamplerParameters example_runtime example_page))
     = [''temp'', ''streaming'', ''seed'']
   \<and> sanitizeId ''temp_openai'' = ''temp''
   \<and> sanitizeId ''amount_gen'' = ''amount_gen''
   \<and> sanitizeId ''rep_pen_textgenerationwebui'' = ''rep_pen''
   \<and> sanitizeId ''top_p_openai'' = ''top_p''
   \<and> sanitizeId ''Top_K_counter'' = ''Top_K''
   \<and> sanitizeId ''openai_max_context'' = ''max_context''
   \<and> sanitizeId ''oai_top_k'' = ''top_k''
   \<and> sanitizeId ''a_counter_counter'' = ''a_counter''
   \<and> sanitizeId ''min_novelty'' = ''minty''"
proof -
  let ?t = "\<lparr>param_id = ''temp'', param_name = ''Temperature'', param_max = Finite 2,
       param_min = Finite 0, param_value = Finite (3 / 2), param_checked = False,
       param_type = ''range'', param_control = 0\<rparr>"
  note T = sanitizeId_deletes_tokens
  note ev = no_token_def sublist_Cons_right
  have "param_id ?t = sanitizeId (input_id (inputs example_page ! param_control ?t))"
    using T [where rt = example_runtime and d = example_page and p = ?t, THEN conjunct1]
    by (simp add: example_enumerate)
  then have 1: "sanitizeId ''temp_openai'' = ''temp''"
    by (simp add: example_page_def temperature_def)
  have 2: "sanitizeId ''amount_gen'' = ''amount_gen''"
    using T [where s = "''amount_gen''", THEN conjunct2, THEN conjunct2, THEN conjunct2,
        THEN conjunct2, THEN conjunct2, THEN conjunct1]
    by (simp add: ev)
  have 3: "sanitizeId ''rep_pen_textgenerationwebui'' = ''rep_pen''"
    using T [where core = "''rep_pen''" and suf = "''_textgenerationwebui''",
        THEN conjunct2, THEN conjunct2, THEN conjunct2, THEN conjunct2,
        THEN conjunct2, THEN conjunct2, THEN conjunct1]
    by (simp add: ev)
  have 4: "sanitizeId ''top_p_openai'' = ''top_p''"
    using T [where core = "''top_p''" and suf = "''_openai''",
        THEN conjunct2, THEN conjunct2, THEN conjunct2, THEN conjunct2,
        THEN conjunct2, THEN conjunct2, THEN conjunct1]
    by (simp add: ev)
  have 5: "sanitizeId ''Top_K_counter'' = ''Top_K''"
    using T [where core = "''Top_K''" and suf = "''_counter''",
        THEN conjunct2, THEN conjunct2, THEN conjunct2, THEN conjunct2,
        THEN conjunct2, THEN conjunct2, THEN conjunct1]
    by (simp add: ev)
  have 6: "sanitizeId ''openai_max_context'' = ''max_context''"
    using T [where core = "''max_context''" and pre = "''openai_''",
        THEN conjunct2, THEN conjunct2, THEN conjunct2, THEN conjunct2,
        THEN conjunct2, THEN conjunct2, THEN conjunct2, THEN conjunct1]
    by (simp add: ev)
  have 7: "sanitizeId ''oai_top_k'' = ''top_k''"
    using T [where core = "''top_k''" and pre = "''oai_''",
        THEN conjunct2, THEN conjunct2, THEN conjunct2, THEN conjunct2,
        THEN conjunct2, THEN conjunct2, THEN conjunct2, THEN conjunct1]
    by (simp add: ev)
  have a: "delete_first_occurrence ''_counter'' ''a_counter_counter'' = ''a_counter''"
    using T [where tok = "''_counter''" and a = "''a''" and b = "''_counter''",
        THEN conjunct2, THEN conjunct2, THEN conjunct2, THEN conjunct1]
    by (simp add: sublist_Cons_right)
  have b: "delete_first_occurrence ''_textgenerationwebui'' ''a_counter'' = ''a_counter''"
    "delete_first_occurrence ''_openai'' ''a_counter'' = ''a_counter''"
    "delete_first_occurrence ''_novel'' ''a_counter'' = ''a_counter''"
    "delete_first_occurrence ''openai_'' ''a_counter'' = ''a_counter''"
    "delete_first_occurrence ''oai_'' ''a_counter'' = ''a_counter''"
    using T [where tok = "''_textgenerationwebui''" and t = "''a_counter''",
        THEN conjunct2, THEN conjunct2, THEN conjunct1]
      T [where tok = "''_openai''" and t = "''a_counter''",
        THEN conjunct2, THEN conjunct2, THEN conjunct1]
      T [where tok = "''_novel''" and t = "''a_counter''",
        THEN conjunct2, THEN conjunct2, THEN conjunct1]
      T [where tok = "''openai_''" and t = "''a_counter''",
        THEN conjunct2, THEN conjunct2, THEN conjunct1]
      T [where tok = "''oai_''" and t = "''a_counter''",
        THEN conjunct2, THEN conjunct2, THEN conjunct1]
    by (simp_all add: sublist_Cons_right)
  have 8: "sanitizeId ''a_counter_counter'' = ''a_counter''"
    by (simp only: T [where s = "''a_counter_counter''", THEN conjunct2, THEN conjunct1] a b)
  have 9: "sanitizeId ''min_novelty'' = ''minty''"
    using T [where x = "''min''" and y = "''ty''", THEN conjunct2, THEN conjunct2, THEN conjunct2,
        THEN conjunct2, THEN conjunct2, THEN conjunct2, THEN conjunct2, THEN conjunct2]
    by simp
  from 1 2 3 4 5 6 7 8 9 show ?thesis
    by (simp add: example_enumerate)
qed

text \<open>
  C7 as stated fails: \<open>_novel\<close> is deleted from the middle of
  \<open>min_novelty\<close>, which ends in none of the suffixes and starts with none of the
  prefixes, and \<open>oai_\<close> is deleted from \<open>koai_temp\<close>, where it is not leading.
\<close>

theorem sanitizeId_deletes_inside:
  "sanitizeId ''min_novelty'' = ''minty''
   \<and> sanitizeId ''koai_temp'' = ''ktemp''
   \<and> \<not> suffix ''_novel'' ''min_novelty''
   \<and> \<not> prefix ''oai_'' ''koai_temp''"
  by (simp add: sanitizeId_def suffix_to_prefix)

text \<open>
  C8, amended. Every parameter the enumerator returns has a non-empty id and a
  non-empty name, its id being \<open>sanitizeId\<close> of its control's identifier and its name
  the trimmed title text of its control; a control whose sanitized identifier is empty,
  or whose title is missing or blank, gives no parameter. (The id keeps the capitals of
  the raw identifier.)
\<close>

theorem enumerate_nonempty_id_name:
  "(p \<in> set (fst (enumerateSamplerParameters rt d)) \<longrightarrow>
      param_id p \<noteq> [] \<and> param_name p \<noteq> [] \<and>
      param_control p < length (inputs d) \<and>
      param_id p = sanitizeId (input_id (inputs d ! param_control p)) \<and>
      map_option trim (getTitleParent (inputs d ! param_control p)) = Some (param_name p))
   \<and> (sanitizeId (input_id (inputs d ! i)) = [] \<or>
        getTitleParent (inputs d ! i) = None \<or>
        map_option trim (getTitleParent (inputs d ! i)) = Some [] \<longrightarrow>
      i \<notin> param_control ` set (fst (enumerateSamplerParameters rt d)))"
proof (intro conjI impI)
  assume m: "p \<in> set (fst (enumerateSamplerParameters rt d))"
  show "param_id p \<noteq> []"
    by (rule enumerate_member(4) [OF m])
  show "param_name p \<noteq> []"
    by (rule enumerate_member(5) [OF m])
  show "param_control p < length (inputs d)"
    by (rule enumerate_member(1) [OF m])
  show "param_id p = sanitizeId (input_id (inputs d ! param_control p))"
    by (rule enumerate_member(2) [OF m])
  show "map_option trim (getTitleParent (inputs d ! param_control p)) = Some (param_name p)"
    by (rule enumerate_member(3) [OF m])
next
  assume bad: "sanitizeId (input_id (inputs d ! i)) = [] \<or>
        getTitleParent (inputs d ! i) = None \<or>
        map_option trim (getTitleParent (inputs d ! i)) = Some []"
  show "i \<notin> param_control ` set (fst (enumerateSamplerParameters rt d))"
  proof
    assume "i \<in> param_control ` set (fst (enumerateSamplerParameters rt d))"
    then obtain q where q: "q \<in> set (fst (enumerateSamplerParameters rt d))"
      and i: "i = param_control q"
      by auto
    from enumerate_member(2,3,4,5) [OF q] bad i show False
      by auto
  qed
qed

theorem enumerate_nonempty_id_name_witness:
  "map param_id (fst (enumerateSamplerParameters example_runtime second_page))
     = [''temp'', ''temp'', ''Top_K'']
   \<and> map param_name (fst (enumerateSamplerParameters example_runtime second_page))
     = [''Temperature'', ''Randomness'', ''Top K'']
   \<and> sanitizeId (input_id (inputs second_page ! 3)) = []
   \<and> map_option trim (getTitleParent (inputs second_page ! 4)) = Some []
   \<and> 3 \<notin> param_control ` set (fst (enumerateSamplerParameters example_runtime second_page))
   \<and> 4 \<notin> param_control ` set (fst (enumerateSamplerParameters example_runtime second_page))"
proof -
  let ?k = "\<lparr>param_id = ''Top_K'', param_name = ''Top K'', param_max = Finite 5,
       param_min = Finite 0, param_value = Finite 0, param_checked = False,
       param_type = ''number'', param_control = 2\<rparr>"
  have a: "sanitizeId (input_id (inputs second_page ! 3)) = []"
    by (simp add: second_page_def bare_counter_def sanitizeId_def)
  have b: "map_option trim (getTitleParent (inputs second_page ! 4)) = Some []"
    by (simp add: second_page_def untitled_def getTitleParent_def nonBlank_def trim_def
        isWhiteSpace_def)
  have c: "3 \<notin> param_control ` set (fst (enumerateSamplerParameters example_runtime second_page))"
    using enumerate_nonempty_id_name [where rt = example_runtime and d = second_page and i = 3,
        THEN conjunct2] a
    by simp
  have d: "4 \<notin> param_control ` set (fst (enumerateSamplerParameters example_runtime second_page))"
    using enumerate_nonempty_id_name [where rt = example_runtime and d = second_page and i = 4,
        THEN conjunct2] b
    by simp
  have "?k \<in> set (fst (enumerateSamplerParameters example_runtime second_page)) \<longrightarrow>
      param_id ?k \<noteq> [] \<and> param_name ?k \<noteq> []"
    using enumerate_nonempty_id_name [where rt = example_runtime and d = second_page and p = ?k,
        THEN conjunct1]
    by blast
  then have e: "param_id ?k \<noteq> [] \<and> param_name ?k \<noteq> []"
    by (simp add: second_enumerate)
  from a b c d e show ?thesis
    by (simp add: second_enumerate)
qed

text \<open>
  C8 as stated fails: the identifier \<open>Top_K_counter\<close> gives the id \<open>Top_K\<close>,
  which is not in lower case.
\<close>

theorem enumerate_keeps_capitals:
  "input_id (inputs second_page ! 2) = ''Top_K_counter''
   \<and> map param_id (fst (enumerateSamplerParameters example_runtime second_page))
       = [''temp'', ''temp'', ''Top_K'']
   \<and> toLowerCase ''Top_K'' = ''top_k''"
  by (simp add: second_enumerate) (simp add: second_page_def top_k_def toLowerCase_def
      toLowerCase_char_def)

text \<open>
  C9, amended. \<open>sampler-set\<close> fails with InvalidArgument when the name is absent
  (falsy) or not a string; and when the name is a non-empty string that matches a
  parameter and the value is absent (falsy) or not a string. (With a name that matches
  no parameter the lookup fails first, with NotFound: see the counterexample.)
\<close>

theorem sampler_set_invalid_argument:
  "(\<not> truthy name \<or> \<not> isString name \<longrightarrow>
      (\<exists>e. sampler_set rt name val d = (Inl e, d) \<and> kind e = InvalidArgument))
   \<and> (find (matches (toLowerCase (trim s))) (fst (enumerateSamplerParameters rt d)) = Some p \<and>
        (\<not> truthy val \<or> \<not> isString val) \<longrightarrow>
      (\<exists>e. sampler_set rt (JString s) val d = (Inl e, snd (enumerateSamplerParameters rt d))
           \<and> kind e = InvalidArgument))"
proof (intro conjI impI)
  assume "\<not> truthy name \<or> \<not> isString name"
  then show "\<exists>e. sampler_set rt name val d = (Inl e, d) \<and> kind e = InvalidArgument"
    by (cases name) (auto simp: sampler_set_def)
next
  assume a: "find (matches (toLowerCase (trim s))) (fst (enumerateSamplerParameters rt d)) = Some p \<and>
        (\<not> truthy val \<or> \<not> isString val)"
  then have "sampler_set rt (JString s) val d =
      writeParameter rt p val (snd (enumerateSamplerParameters rt d))"
    by (simp add: sampler_set_found)
  with a writeParameter_invalid_value [of val rt p "snd (enumerateSamplerParameters rt d)"]
  show "\<exists>e. sampler_set rt (JString s) val d = (Inl e, snd (enumerateSamplerParameters rt d))
           \<and> kind e = InvalidArgument"
    by auto
qed

theorem sampler_set_invalid_argument_witness:
  "sampler_set example_runtime JUndefined (JString ''1.5'') example_page = (Inl NameRequired, example_page)
   \<and> sampler_set example_runtime (JNumber (Finite 5)) (JString ''1.5'') example_page
       = (Inl NameNotString, example_page)
   \<and> sampler_set example_runtime (JString ''temp'') JUndefined example_page
       = (Inl ValueRequired, example_page)
   \<and> sampler_set example_runtime (JString ''temp'') (JBoolean True) example_page
       = (Inl ValueNotString, example_page)"
proof -
  have 1: "sampler_set example_runtime JUndefined (JString ''1.5'') example_page = (Inl NameRequired, example_page)"
    using sampler_set_invalid_argument [of JUndefined example_runtime "JString ''1.5''" example_page]
    by (auto simp: sampler_set_def)
  have 2: "sampler_set example_runtime (JNumber (Finite 5)) (JString ''1.5'') example_page
       = (Inl NameNotString, example_page)"
    using sampler_set_invalid_argument [of "JNumber (Finite 5)" example_runtime "JString ''1.5''" example_page]
    by (auto simp: sampler_set_def)
  have 3: "sampler_set example_runtime (JString ''temp'') JUndefined example_page
       = (Inl ValueRequired, example_page)"
    using sampler_set_invalid_argument [of _ example_runtime JUndefined example_page "''temp''"]
      example_find_temp
    by (auto simp: key_temp sampler_set_found writeParameter_def example_enumerate_page)
  have 4: "sampler_set example_runtime (JString ''temp'') (JBoolean True) example_page
       = (Inl ValueNotString, example_page)"
    using sampler_set_invalid_argument [of _ example_runtime "JBoolean True" example_page "''temp''"]
      example_find_temp
    by (auto simp: key_temp sampler_set_found writeParameter_def example_enumerate_page)
  from 1 2 3 4 show ?thesis by simp
qed

text \<open>
  C9 as stated fails: with the valid name \<open>top_k\<close>, which matches no parameter
  of the example page, and an absent value, the failure is NotFound.
\<close>

theorem sampler_set_absent_value_not_found:
  "sampler_set example_runtime (JString ''top_k'') JUndefined example_page =
     (Inl (ParameterNotFound ''top_k''), example_page)
   \<and> \<not> truthy JUndefined
   \<and> kind (ParameterNotFound ''top_k'') \<noteq> InvalidArgument"
proof -
  have key: "toLowerCase (trim ''top_k'') = ''top_k''"
    by (simp add: model_defs)
  have "find (matches ''top_k'') (fst (enumerateSamplerParameters example_runtime example_page)) = None"
    by (simp add: example_enumerate matches_def toLowerCase_def toLowerCase_char_def)
  then show ?thesis
    using sampler_set_not_found [of "''top_k''" example_runtime example_page JUndefined]
    by (simp add: key example_enumerate_page)
qed

text \<open>
  C10. In \<open>sampler-set\<close> the parameter is looked up, with a fresh enumeration of the
  page, before the value is validated: when the name is a non-empty string that matches
  no parameter and the value is absent or not a string, the command fails with NotFound
  (not with InvalidArgument), and the page is the one the enumeration leaves.
\<close>

theorem sampler_set_lookup_before_value:
  assumes "s \<noteq> []"
    and "\<forall>p \<in> set (fst (enumerateSamplerParameters rt d)).
           toLowerCase (param_name p) \<noteq> toLowerCase (trim s) \<and>
           toLowerCase (param_id p) \<noteq> toLowerCase (trim s)"
    and "\<not> truthy val \<or> \<not> isString val"
  shows "sampler_set rt (JString s) val d =
           (Inl (ParameterNotFound (toLowerCase (trim s))), snd (enumerateSamplerParameters rt d))
         \<and> kind (ParameterNotFound (toLowerCase (trim s))) = NotFound"
proof -
  from assms(2)
  have "find (matches (toLowerCase (trim s))) (fst (enumerateSamplerParameters rt d)) = None"
    by (auto simp: find_None_iff matches_def)
  with assms(1) show ?thesis
    by (simp add: sampler_set_not_found)
qed

theorem sampler_set_lookup_before_value_witness:
  "sampler_set example_runtime (JString ''missing-param'') JUndefined example_page =
     (Inl (ParameterNotFound ''missing-param''), example_page)
   \<and> sampler_set example_runtime (JString ''missing-param'') (JNumber (Finite 1)) example_page =
     (Inl (ParameterNotFound ''missing-param''), example_page)"
proof -
  have key: "toLowerCase (trim ''missing-param'') = ''missing-param''"
    by (simp add: model_defs)
  have none: "\<forall>p \<in> set (fst (enumerateSamplerParameters example_runtime example_page)).
           toLowerCase (param_name p) \<noteq> toLowerCase (trim ''missing-param'') \<and>
           toLowerCase (param_id p) \<noteq> toLowerCase (trim ''missing-param'')"
    by (simp add: example_enumerate key) (simp add: toLowerCase_def toLowerCase_char_def)
  have "sampler_set example_runtime (JString ''missing-param'') JUndefined example_page =
     (Inl (ParameterNotFound ''missing-param''), example_page)"
    using sampler_set_lookup_before_value
      [of "''missing-param''" example_runtime example_page JUndefined, OF _ none]
    by (simp add: key example_enumerate_page)
  moreover
  have "sampler_set example_runtime (JString ''missing-param'') (JNumber (Finite 1)) example_page =
     (Inl (ParameterNotFound ''missing-param''), example_page)"
    using sampler_set_lookup_before_value
      [of "''missing-param''" example_runtime example_page "JNumber (Finite 1)", OF _ none]
    by (simp add: key example_enumerate_page)
  ultimately show ?thesis by simp
qed

text \<open>
  X2. The enumerator changes no control and dispatches no event, and the list it returns
  does not depend on the panel's style: a hidden panel is enumerated as a shown one.
\<close>

theorem enumerate_reads_controls_only:
  "inputs (snd (enumerateSamplerParameters rt d)) = inputs d
   \<and> dispatched (snd (enumerateSamplerParameters rt d)) = dispatched d
   \<and> fst (enumerateSamplerParameters rt (d\<lparr>leftPanel := p\<rparr>)) = fst (enumerateSamplerParameters rt d)"
proof -
  have "fst (enumerateSamplerParameters rt (d\<lparr>leftPanel := p\<rparr>))
      = fst (enumerateSamplerParameters rt d)"
    by (simp add: enumerateSamplerParameters_def Let_def rangeSliders_forceVisible)
  then show ?thesis
    by (simp add: inputs_enumerate dispatched_enumerate)
qed

text \<open>
  X3. The enumerator returns one parameter for each control of the panel that the
  selector finds (a range input, a checkbox, or a number input without \<open>data-for\<close>),
  that has a layout size, that is outside \<open>#openai_settings\<close>, whose sanitized
  identifier is not empty and whose title text is not blank; the parameters are in the
  order of the controls, and each holds the index of its control.
\<close>

theorem enumerate_characterised:
  "fst (enumerateSamplerParameters rt d) =
     map (\<lambda>(i, c).
            \<lparr>param_id = sanitizeId (input_id c),
             param_name = trim (the (getTitleParent c)),
             param_max = parseFloat rt (input_max c),
             param_min = parseFloat rt (input_min c),
             param_value = parseFloat rt (input_value c),
             param_checked = input_checked c,
             param_type = input_type c,
             param_control = i\<rparr>)
       (filter (\<lambda>(i, c). selected c \<and> 0 < layoutHeight c \<and> 0 < layoutWidth c \<and>
                  \<not> in_openai_settings c \<and> sanitizeId (input_id c) \<noteq> [] \<and>
                  (\<exists>t. getTitleParent c = Some t \<and> trim t \<noteq> []))
          (zip [0 ..< length (inputs d)] (inputs d)))"
  by (simp add: enumerateSamplerParameters_def Let_def rangeSliders_forceVisible
      collect_map_filter split_def conj_commute conj_left_commute)

end
